theory Spec2Isabelle
  imports Complex_Main "HOL-Library.AList"
begin

section \<open>Bot simulation service: the model\<close>

text \<open>
  A shallow embedding of \<^verbatim>\<open>src/app.py\<close>. Python floats are idealised as the real
  numbers. The sources of nondeterminism of the program (the random number generator,
  the uuid generator and the wall clock) are made explicit as streams held in an
  environment record; every draw returns the head of its stream and the environment
  with that stream advanced. The module-level dictionary \<^verbatim>\<open>bots_data\<close> is an
  association list in insertion order, as a Python dict is, passed and returned
  explicitly. A raised exception is the value \<open>None\<close>.
\<close>

subsection \<open>Module constants\<close>

definition WORLD_WIDTH :: real where
  "WORLD_WIDTH = 3000"

definition WORLD_HEIGHT :: real where
  "WORLD_HEIGHT = 3000"

definition BOT_MAX_CELLS :: nat where
  "BOT_MAX_CELLS = 4"

definition BOT_INITIAL_MASS :: real where
  "BOT_INITIAL_MASS = pi * 15 * 15"

definition BOT_BASE_SPEED :: real where
  "BOT_BASE_SPEED = 5 / 2"

subsection \<open>The environment: random numbers, uuids, time\<close>

record env =
  rand_src :: "nat \<Rightarrow> real"
  randint_src :: "nat \<Rightarrow> nat"
  uuid_src :: "nat \<Rightarrow> string"
  clock_src :: "nat \<Rightarrow> real"

text \<open>\<^verbatim>\<open>random.random()\<close>\<close>

definition random_random :: "env \<Rightarrow> real \<times> env" where
  "random_random e = (rand_src e 0, e\<lparr>rand_src := (\<lambda>n. rand_src e (Suc n))\<rparr>)"

text \<open>\<^verbatim>\<open>random.uniform(a, b)\<close>, which the library computes as \<^verbatim>\<open>a + (b - a) * random()\<close>\<close>

definition random_uniform :: "real \<Rightarrow> real \<Rightarrow> env \<Rightarrow> real \<times> env" where
  "random_uniform a b e = (case random_random e of (r, e') \<Rightarrow> (a + (b - a) * r, e'))"

text \<open>\<^verbatim>\<open>random.randint(0, 0xFFFFFF)\<close>\<close>

definition random_randint :: "env \<Rightarrow> nat \<times> env" where
  "random_randint e = (randint_src e 0, e\<lparr>randint_src := (\<lambda>n. randint_src e (Suc n))\<rparr>)"

text \<open>\<^verbatim>\<open>str(uuid.uuid4())\<close>\<close>

definition uuid_uuid4 :: "env \<Rightarrow> string \<times> env" where
  "uuid_uuid4 e = (uuid_src e 0, e\<lparr>uuid_src := (\<lambda>n. uuid_src e (Suc n))\<rparr>)"

text \<open>\<^verbatim>\<open>time.time()\<close>\<close>

definition time_time :: "env \<Rightarrow> real \<times> env" where
  "time_time e = (clock_src e 0, e\<lparr>clock_src := (\<lambda>n. clock_src e (Suc n))\<rparr>)"

subsection \<open>Python primitives\<close>

text \<open>True division raises \<^verbatim>\<open>ZeroDivisionError\<close> on a zero divisor.\<close>

definition py_truediv :: "real \<Rightarrow> real \<Rightarrow> real option" where
  "py_truediv a b = (if b = 0 then None else Some (a / b))"

text \<open>Indexing a list raises \<^verbatim>\<open>IndexError\<close> out of range.\<close>

definition py_index :: "'a list \<Rightarrow> nat \<Rightarrow> 'a option" where
  "py_index xs i = (if i < length xs then Some (xs ! i) else None)"

text \<open>
  \<^verbatim>\<open>v ** 0.5\<close>. For a negative float Python returns a complex number; the model
  leaves the value there unspecified (as \<open>powr\<close> is), and nothing below is stated about it.
\<close>

definition pow_half :: "real \<Rightarrow> real" where
  "pow_half v = v powr (1 / 2)"

text \<open>
  \<^verbatim>\<open>math.atan2(y, x)\<close>, a library function, by its mathematical definition.
\<close>

definition math_atan2 :: "real \<Rightarrow> real \<Rightarrow> real" where
  "math_atan2 b a =
     (if 0 < a then arctan (b / a)
      else if a < 0 then (if 0 \<le> b then arctan (b / a) + pi else arctan (b / a) - pi)
      else if 0 < b then pi / 2
      else if b < 0 then - (pi / 2)
      else 0)"

text \<open>Lower-case hexadecimal digits of a number, for the format \<^verbatim>\<open>{:06x}\<close>.\<close>

fun hex_str :: "nat \<Rightarrow> string" where
  "hex_str n =
     (if n < 16 then [''0123456789abcdef'' ! n]
      else hex_str (n div 16) @ [''0123456789abcdef'' ! (n mod 16)])"

definition format_06x :: "nat \<Rightarrow> string" where
  "format_06x n = (let s = hex_str n in replicate (6 - length s) (CHR ''0'') @ s)"

subsection \<open>Helper functions of the module\<close>

definition generate_bot_id :: "env \<Rightarrow> string \<times> env" where
  "generate_bot_id e = (case uuid_uuid4 e of (u, e') \<Rightarrow> (''pybot_'' @ take 8 u, e'))"

definition mass_to_radius :: "real \<Rightarrow> real" where
  "mass_to_radius m = pow_half (m / pi)"

definition radius_to_mass :: "real \<Rightarrow> real" where
  "radius_to_mass r = pi * r * r"

subsection \<open>Cells\<close>

record PyBotCell =
  cell_id :: string
  cell_x :: real
  cell_y :: real
  mass :: real
  radius :: real

text \<open>
  The constructor. \<^verbatim>\<open>cell_id or str(uuid.uuid4())[:6]\<close> draws a uuid only when the
  argument is \<^verbatim>\<open>None\<close> or the empty string.
\<close>

definition PyBotCell_init ::
    "real \<Rightarrow> real \<Rightarrow> real \<Rightarrow> string option \<Rightarrow> env \<Rightarrow> PyBotCell \<times> env" where
  "PyBotCell_init px py m cid e =
     (case (if cid = None \<or> cid = Some [] then
              (case uuid_uuid4 e of (u, e') \<Rightarrow> (take 6 u, e'))
            else (the cid, e)) of
        (i, e1) \<Rightarrow>
          (\<lparr>cell_id = i, cell_x = px, cell_y = py, mass = m, radius = mass_to_radius m\<rparr>, e1))"

definition update_mass :: "PyBotCell \<Rightarrow> real \<Rightarrow> PyBotCell" where
  "update_mass self new_mass = self\<lparr>mass := new_mass, radius := mass_to_radius new_mass\<rparr>"

record cell_dict =
  cd_id :: string
  cd_x :: real
  cd_y :: real
  cd_mass :: real
  cd_radius :: real

definition cell_to_dict :: "PyBotCell \<Rightarrow> cell_dict" where
  "cell_to_dict self =
     \<lparr>cd_id = cell_id self, cd_x = cell_x self, cd_y = cell_y self,
      cd_mass = mass self, cd_radius = radius self\<rparr>"

subsection \<open>Bots\<close>

record PyBot =
  bot_id :: string
  name :: string
  color :: string
  cells :: "PyBotCell list"
  target_x :: real
  target_y :: real
  last_update_time :: real
  total_mass :: real

type_synonym registry = "(string \<times> PyBot) list"

text \<open>
  \<^verbatim>\<open>recalculate_total_mass\<close>: recompute the cached sum; a bot without cells that is
  registered under its identifier is deleted from \<^verbatim>\<open>bots_data\<close>.
\<close>

definition recalculate_total_mass :: "PyBot \<Rightarrow> registry \<Rightarrow> PyBot \<times> registry" where
  "recalculate_total_mass self bots_data =
     (let self1 = self\<lparr>total_mass := sum_list (map mass (cells self))\<rparr>
      in if cells self1 = [] \<and> bot_id self1 \<in> set (map fst bots_data)
         then (self1, AList.delete (bot_id self1) bots_data)
         else (self1, bots_data))"

definition add_initial_cell :: "PyBot \<Rightarrow> registry \<Rightarrow> env \<Rightarrow> PyBot \<times> registry \<times> env" where
  "add_initial_cell self bots_data e =
     (case random_uniform 100 (WORLD_WIDTH - 100) e of (initial_x, e1) \<Rightarrow>
      case random_uniform 100 (WORLD_HEIGHT - 100) e1 of (initial_y, e2) \<Rightarrow>
      case PyBotCell_init initial_x initial_y BOT_INITIAL_MASS None e2 of (c, e3) \<Rightarrow>
      case recalculate_total_mass (self\<lparr>cells := cells self @ [c]\<rparr>) bots_data of
        (self1, bots_data1) \<Rightarrow> (self1, bots_data1, e3))"

text \<open>
  The constructor of a bot; each of the three arguments defaults to a generated value
  when it is \<^verbatim>\<open>None\<close> or empty.
\<close>

definition PyBot_init ::
    "string option \<Rightarrow> string option \<Rightarrow> string option \<Rightarrow> registry \<Rightarrow> env
       \<Rightarrow> PyBot \<times> registry \<times> env" where
  "PyBot_init bid nm col bots_data e =
     (case (if bid = None \<or> bid = Some [] then generate_bot_id e else (the bid, e)) of
        (i, e1) \<Rightarrow>
      case (if nm = None \<or> nm = Some [] then ''PyBot '' @ drop (length i - 3) i else the nm) of
        n \<Rightarrow>
      case (if col = None \<or> col = Some [] then
              (case random_randint e1 of (k, e') \<Rightarrow> (''#'' @ format_06x k, e'))
            else (the col, e1)) of
        (c, e2) \<Rightarrow>
      case random_uniform 0 WORLD_WIDTH e2 of (tx, e3) \<Rightarrow>
      case random_uniform 0 WORLD_HEIGHT e3 of (ty, e4) \<Rightarrow>
      case time_time e4 of (t, e5) \<Rightarrow>
        add_initial_cell
          \<lparr>bot_id = i, name = n, color = c, cells = [], target_x = tx, target_y = ty,
           last_update_time = t, total_mass = 0\<rparr> bots_data e5)"

text \<open>
  \<^verbatim>\<open>get_center_of_mass\<close>. The truth value of \<^verbatim>\<open>self.total_mass\<close> is that it is not
  zero.
\<close>

definition get_center_of_mass :: "PyBot \<Rightarrow> (real \<times> real) option" where
  "get_center_of_mass self =
     (if cells self = [] then Some (target_x self, target_y self)
      else
        case (if total_mass self \<noteq> 0
              then py_truediv (sum_list (map (\<lambda>c. cell_x c * mass c) (cells self)))
                     (total_mass self)
              else map_option cell_x (py_index (cells self) 0)) of
          None \<Rightarrow> None
        | Some com_x \<Rightarrow>
            (case (if total_mass self \<noteq> 0
                   then py_truediv (sum_list (map (\<lambda>c. cell_y c * mass c) (cells self)))
                          (total_mass self)
                   else map_option cell_y (py_index (cells self) 0)) of
               None \<Rightarrow> None
             | Some com_y \<Rightarrow> Some (com_x, com_y)))"

text \<open>
  The pieces of \<^verbatim>\<open>update_position\<close>, in the order of the source: the re-roll of the
  target (the random draw is made only when the distance test fails, as \<^verbatim>\<open>or\<close>
  short-circuits), the speed, and the move of one cell with its clamp.
\<close>

definition reroll_target :: "PyBot \<Rightarrow> real \<Rightarrow> env \<Rightarrow> PyBot \<times> env" where
  "reroll_target self dist_to_target e =
     (case (if dist_to_target < 50 then (True, e)
            else (case random_random e of (r, e') \<Rightarrow> (r < 1 / 100, e'))) of
        (go, e1) \<Rightarrow>
          if go then
            (case random_uniform 0 WORLD_WIDTH e1 of (tx, e2) \<Rightarrow>
             case random_uniform 0 WORLD_HEIGHT e2 of (ty, e3) \<Rightarrow>
               (self\<lparr>target_x := tx, target_y := ty\<rparr>, e3))
          else (self, e1))"

definition bot_speed :: "real \<Rightarrow> real option" where
  "bot_speed tm =
     map_option (max (1 / 2))
       (py_truediv BOT_BASE_SPEED (1 + tm / (BOT_INITIAL_MASS * 20)))"

definition move_cell :: "real \<Rightarrow> real \<Rightarrow> PyBotCell \<Rightarrow> PyBotCell" where
  "move_cell move_x move_y c =
     (let c1 = c\<lparr>cell_x := cell_x c + move_x\<rparr>;
          c2 = c1\<lparr>cell_y := cell_y c1 + move_y\<rparr>;
          c3 = c2\<lparr>cell_x := max (radius c2) (min (WORLD_WIDTH - radius c2) (cell_x c2))\<rparr>
      in c3\<lparr>cell_y := max (radius c3) (min (WORLD_HEIGHT - radius c3) (cell_y c3))\<rparr>)"

definition update_position :: "PyBot \<Rightarrow> real \<Rightarrow> env \<Rightarrow> (PyBot \<times> env) option" where
  "update_position self delta_time e =
     (if cells self = [] then Some (self, e)
      else
        case get_center_of_mass self of
          None \<Rightarrow> None
        | Some (com_x, com_y) \<Rightarrow>
            (case reroll_target self
                    (pow_half ((target_x self - com_x)\<^sup>2 + (target_y self - com_y)\<^sup>2)) e of
               (self1, e1) \<Rightarrow>
                 (case bot_speed (total_mass self1) of
                    None \<Rightarrow> None
                  | Some speed \<Rightarrow>
                      (let angle = math_atan2 (target_y self1 - com_y) (target_x self1 - com_x);
                           move_x = cos angle * speed * delta_time * 60;
                           move_y = sin angle * speed * delta_time * 60
                       in case time_time e1 of
                            (t, e2) \<Rightarrow>
                              Some (self1\<lparr>cells := map (move_cell move_x move_y) (cells self1),
                                          last_update_time := t\<rparr>, e2)))))"

record bot_dict =
  bd_id :: string
  bd_name :: string
  bd_color :: string
  bd_cells :: "cell_dict list"
  bd_target :: "real \<times> real"
  bd_totalMass :: real
  bd_isPythonBot :: bool

definition to_dict :: "PyBot \<Rightarrow> bot_dict" where
  "to_dict self =
     \<lparr>bd_id = bot_id self, bd_name = name self, bd_color = color self,
      bd_cells = map cell_to_dict (cells self),
      bd_target = (target_x self, target_y self),
      bd_totalMass = total_mass self, bd_isPythonBot = True\<rparr>"

definition create_bot_instance :: "registry \<Rightarrow> env \<Rightarrow> PyBot \<times> registry \<times> env" where
  "create_bot_instance bots_data e = PyBot_init None None None bots_data e"

subsection \<open>The request handlers\<close>

text \<open>
  The dictionary holds the bot objects themselves, so what \<^verbatim>\<open>update_position\<close> changes
  in a bot is seen through the entry of that bot. In the model the changed bot is written
  back in place under its key.
\<close>

definition store_bot :: "string \<Rightarrow> PyBot \<Rightarrow> registry \<Rightarrow> registry" where
  "store_bot k b bots_data = map (\<lambda>(k', b'). if k' = k then (k', b) else (k', b')) bots_data"

text \<open>
  The loop of \<^verbatim>\<open>get_bots_data\<close> over the snapshot \<^verbatim>\<open>list(bots_data.items())\<close>.
\<close>

fun get_bots_loop ::
    "real \<Rightarrow> (string \<times> PyBot) list \<Rightarrow> bot_dict list \<Rightarrow> registry \<Rightarrow> env
       \<Rightarrow> (bot_dict list \<times> registry \<times> env) option" where
  "get_bots_loop current_time [] active_bots bots_data e = Some (active_bots, bots_data, e)"
| "get_bots_loop current_time ((k, bot_instance) # items) active_bots bots_data e =
     (case update_position bot_instance (current_time - last_update_time bot_instance) e of
        None \<Rightarrow> None
      | Some (b1, e1) \<Rightarrow>
          if cells b1 \<noteq> [] then
            get_bots_loop current_time items (active_bots @ [to_dict b1])
              (store_bot k b1 bots_data) e1
          else
            get_bots_loop current_time items active_bots
              (if k \<in> set (map fst bots_data) then AList.delete k bots_data else bots_data) e1)"

definition get_bots_data :: "registry \<Rightarrow> env \<Rightarrow> (bot_dict list \<times> registry \<times> env) option" where
  "get_bots_data bots_data e =
     (case time_time e of (current_time, e1) \<Rightarrow>
        get_bots_loop current_time bots_data [] bots_data e1)"

text \<open>The loop \<^verbatim>\<open>for _ in range(count)\<close> of the reset handler and of the start-up.\<close>

fun create_bots :: "nat \<Rightarrow> registry \<Rightarrow> env \<Rightarrow> registry \<times> env" where
  "create_bots 0 bots_data e = (bots_data, e)"
| "create_bots (Suc n) bots_data e =
     (case create_bot_instance bots_data e of
        (b, bots_data1, e1) \<Rightarrow> create_bots n (AList.update (bot_id b) b bots_data1) e1)"

text \<open>
  \<^verbatim>\<open>reset_all_bots\<close>. The argument is the query parameter \<^verbatim>\<open>count\<close> as an integer,
  \<open>None\<close> when it is absent or not an integer (then the default 10 is taken); a range
  over a negative number is empty. The result is the list of snapshots with the status.
\<close>

definition reset_all_bots ::
    "int option \<Rightarrow> registry \<Rightarrow> env \<Rightarrow> (bot_dict list \<times> nat) \<times> registry \<times> env" where
  "reset_all_bots count_arg bots_data e =
     (let count = (case count_arg of None \<Rightarrow> 10 | Some c \<Rightarrow> c)
      in case create_bots (nat count) [] e of
           (bots_data1, e1) \<Rightarrow>
             ((map to_dict (filter (\<lambda>b. cells b \<noteq> []) (map snd bots_data1)), 200),
              bots_data1, e1))"

definition bot_was_eaten ::
    "string \<Rightarrow> registry \<Rightarrow> env \<Rightarrow> (string \<times> nat) \<times> registry \<times> env" where
  "bot_was_eaten k bots_data e =
     (if k \<in> set (map fst bots_data) then
        (case create_bot_instance (AList.delete k bots_data) e of
           (new_bot, bots_data1, e1) \<Rightarrow>
             ((''Bot '' @ k @ '' acknowledged as eaten, new bot '' @ bot_id new_bot
                 @ '' spawned.'', 200),
              AList.update (bot_id new_bot) new_bot bots_data1, e1))
      else ((''Bot '' @ k @ '' not found.'', 404), bots_data, e))"

definition health_check :: "registry \<Rightarrow> nat \<times> nat" where
  "health_check bots_data = (length bots_data, 200)"

text \<open>The start-up block: ten bots are created into the empty dictionary.\<close>

definition startup :: "env \<Rightarrow> registry \<times> env" where
  "startup e = create_bots 10 [] e"

section \<open>Example states\<close>

text \<open>
  Concrete cells, bots and environments on which the statements below are evaluated.
  \<open>demo_bot\<close> is a bot as the constructor makes it, sitting on its target.
\<close>

definition demo_cell :: PyBotCell where
  "demo_cell =
     \<lparr>cell_id = ''c0ffee'', cell_x = 20, cell_y = 20, mass = BOT_INITIAL_MASS, radius = 15\<rparr>"

definition demo_bot :: PyBot where
  "demo_bot =
     \<lparr>bot_id = ''pybot_1a2b3c4d'', name = ''PyBot c4d'', color = ''#0000ff'',
      cells = [demo_cell], target_x = 20, target_y = 20, last_update_time = 0,
      total_mass = BOT_INITIAL_MASS\<rparr>"

definition demo_uuids :: "nat \<Rightarrow> string" where
  "demo_uuids n =
     (if n = 0 then ''1a2b3c4d-0000-4000-8000-000000000000''
      else if n = 1 then ''c0ffee00-1111-4111-8111-111111111111''
      else if n = 2 then ''5e6f7a8b-2222-4222-8222-222222222222''
      else ''d00d1e00-3333-4333-8333-333333333333'')"

definition demo_env :: env where
  "demo_env =
     \<lparr>rand_src = (\<lambda>n. if n = 0 then 1 / 2 else 1 / 150), randint_src = (\<lambda>n. 255),
      uuid_src = demo_uuids, clock_src = (\<lambda>n. 21 / 100 + real n)\<rparr>"

text \<open>A bot of two cells, twice as heavy as \<open>demo_bot\<close>.\<close>

definition heavy_bot :: PyBot where
  "heavy_bot =
     \<lparr>bot_id = ''pybot_0b0b0b0b'', name = ''PyBot b0b'', color = ''#ff0000'',
      cells = [demo_cell, demo_cell\<lparr>cell_id := ''c0ffe1'', cell_x := 60\<rparr>],
      target_x = 20, target_y = 20, last_update_time = 0,
      total_mass = 2 * BOT_INITIAL_MASS\<rparr>"

text \<open>
  Two different uuids that agree on their first eight characters, at the two places of
  the stream from which consecutive bot identifiers are cut.
\<close>

definition dup_uuids :: "nat \<Rightarrow> string" where
  "dup_uuids n =
     (if n = 0 then ''1a2b3c4d-0000-4000-8000-000000000000''
      else if n = 2 then ''1a2b3c4d-ffff-4fff-8fff-ffffffffffff''
      else ''c0ffee00-1111-4111-8111-111111111111'')"

definition dup_env :: env where
  "dup_env =
     \<lparr>rand_src = (\<lambda>n. 1 / 2), randint_src = (\<lambda>n. 255), uuid_src = dup_uuids,
      clock_src = (\<lambda>n. real n)\<rparr>"

text \<open>A registry of two bots, for the elimination handler.\<close>

definition other_bot :: PyBot where
  "other_bot = demo_bot\<lparr>bot_id := ''pybot_deadbeef'', name := ''PyBot eef''\<rparr>"

definition two_bots :: registry where
  "two_bots = [(''pybot_1a2b3c4d'', demo_bot), (''pybot_deadbeef'', other_bot)]"

text \<open>A registry in which the second bot has no cells.\<close>

definition ghost_bot :: PyBot where
  "ghost_bot = demo_bot\<lparr>bot_id := ''pybot_00000000'', name := ''PyBot 000'', cells := [],
                        total_mass := 0\<rparr>"

definition mixed_bots :: registry where
  "mixed_bots = [(''pybot_1a2b3c4d'', demo_bot), (''pybot_00000000'', ghost_bot)]"

section \<open>Notions used to state the properties\<close>

text \<open>
  The bot that \<^verbatim>\<open>create_bot_instance\<close> makes in an environment, and the environment
  it leaves (the registry plays no part in either, as is proved below).
\<close>

definition fresh_bot :: "env \<Rightarrow> PyBot" where
  "fresh_bot e = fst (create_bot_instance [] e)"

definition env_after_bot :: "env \<Rightarrow> env" where
  "env_after_bot e = snd (snd (create_bot_instance [] e))"

fun fresh_bots :: "nat \<Rightarrow> env \<Rightarrow> PyBot list" where
  "fresh_bots 0 e = []"
| "fresh_bots (Suc n) e = fresh_bot e # fresh_bots n (env_after_bot e)"

text \<open>
  The pass of \<^verbatim>\<open>get_bots_data\<close> over the bots as a plain sequence of updates: every
  bot of the list is updated with the time elapsed since its own last update, each update
  in the environment that the one before has left.
\<close>

fun advance_all ::
    "real \<Rightarrow> (string \<times> PyBot) list \<Rightarrow> env \<Rightarrow> ((string \<times> PyBot) list \<times> env) option" where
  "advance_all current_time [] e = Some ([], e)"
| "advance_all current_time ((k, b) # items) e =
     (case update_position b (current_time - last_update_time b) e of
        None \<Rightarrow> None
      | Some (b1, e1) \<Rightarrow>
          (case advance_all current_time items e1 of
             None \<Rightarrow> None
           | Some (r, e2) \<Rightarrow> Some ((k, b1) # r, e2)))"

text \<open>
  The statement \<^verbatim>\<open>self.cells[i].update_mass(new_mass)\<close> seen from the bot: the cell is
  an object held in the list of the bot, so the bot has the cell with its new mass and
  radius afterwards; the method has no access to the bot and touches nothing else of it.
  An index out of range raises. No function of the source makes this call.
\<close>

definition update_cell_mass :: "PyBot \<Rightarrow> nat \<Rightarrow> real \<Rightarrow> PyBot option" where
  "update_cell_mass self i new_mass =
     map_option (\<lambda>c. self\<lparr>cells := (cells self)[i := update_mass c new_mass]\<rparr>)
       (py_index (cells self) i)"

text \<open>
  The registries the program can be in: the one the start-up block makes, and every
  registry that a handler leaves when it is called on such a registry, whatever the random
  numbers, uuids and clock readings are. A bot is as constructed when it has one cell of
  the initial mass and radius 15 and its cached total mass is the initial mass.
\<close>

inductive reachable :: "registry \<Rightarrow> bool" where
  reachable_startup: "reachable (fst (startup e))"
| reachable_reset: "reachable r \<Longrightarrow> reachable (fst (snd (reset_all_bots c r e)))"
| reachable_eaten: "reachable r \<Longrightarrow> reachable (fst (snd (bot_was_eaten k r e)))"
| reachable_listed:
    "reachable r \<Longrightarrow> get_bots_data r e = Some (active_bots, r', e') \<Longrightarrow> reachable r'"

definition bot_ok :: "PyBot \<Rightarrow> bool" where
  "bot_ok b \<longleftrightarrow>
     (\<exists>c. cells b = [c] \<and> mass c = BOT_INITIAL_MASS \<and> radius c = 15) \<and>
     total_mass b = BOT_INITIAL_MASS"

definition registry_ok :: "registry \<Rightarrow> bool" where
  "registry_ok r \<longleftrightarrow>
     distinct (map fst r) \<and> list_all (\<lambda>(k, b). k = bot_id b \<and> bot_ok b) r"

section \<open>Basic facts about the model\<close>

lemma pow_half_sqrt: "0 \<le> v \<Longrightarrow> pow_half v = sqrt v"
  by (simp add: pow_half_def powr_half_sqrt)

lemma mass_to_radius_sqrt: "0 \<le> m \<Longrightarrow> mass_to_radius m = sqrt (m / pi)"
  by (simp add: mass_to_radius_def pow_half_sqrt)

lemma mass_to_radius_inverse: "0 \<le> r \<Longrightarrow> mass_to_radius (radius_to_mass r) = r"
  by (simp add: mass_to_radius_def radius_to_mass_def pow_half_sqrt)

lemma initial_radius: "mass_to_radius BOT_INITIAL_MASS = 15"
  using mass_to_radius_inverse [of 15] by (simp add: radius_to_mass_def BOT_INITIAL_MASS_def)

lemma move_cell_fields:
  "radius (move_cell mx my c) = radius c" "mass (move_cell mx my c) = mass c"
  "cell_id (move_cell mx my c) = cell_id c"
  "cell_x (move_cell mx my c) = max (radius c) (min (WORLD_WIDTH - radius c) (cell_x c + mx))"
  "cell_y (move_cell mx my c) = max (radius c) (min (WORLD_HEIGHT - radius c) (cell_y c + my))"
  by (simp_all add: move_cell_def Let_def)

lemma get_center_of_mass_eq:
  "get_center_of_mass b =
     (if cells b = [] then Some (target_x b, target_y b)
      else if total_mass b = 0 then Some (cell_x (hd (cells b)), cell_y (hd (cells b)))
      else Some (sum_list (map (\<lambda>c. cell_x c * mass c) (cells b)) / total_mass b,
                 sum_list (map (\<lambda>c. cell_y c * mass c) (cells b)) / total_mass b))"
  by (cases "cells b") (simp_all add: get_center_of_mass_def py_truediv_def py_index_def)

lemma reroll_target_fields:
  "reroll_target b d e = (b1, e1) \<Longrightarrow>
     cells b1 = cells b \<and> total_mass b1 = total_mass b \<and> bot_id b1 = bot_id b
     \<and> name b1 = name b \<and> color b1 = color b \<and> last_update_time b1 = last_update_time b"
  by (auto simp: reroll_target_def split: prod.splits if_splits)

lemma bot_speed_eq:
  "bot_speed tm =
     (if tm = - (20 * BOT_INITIAL_MASS) then None
      else Some (max (1 / 2) (BOT_BASE_SPEED / (1 + tm / (BOT_INITIAL_MASS * 20)))))"
proof -
  have "BOT_INITIAL_MASS > 0" by (simp add: BOT_INITIAL_MASS_def)
  then have "(1 + tm / (BOT_INITIAL_MASS * 20) = 0) = (tm = - (20 * BOT_INITIAL_MASS))"
    by (auto simp: field_simps)
  then show ?thesis by (simp add: bot_speed_def py_truediv_def)
qed

lemma update_position_cases:
  "update_position b dt e = None \<longleftrightarrow> cells b \<noteq> [] \<and> total_mass b = - (20 * BOT_INITIAL_MASS)"
  by (auto simp: update_position_def get_center_of_mass_eq bot_speed_eq Let_def
      split: prod.splits option.splits if_splits dest: reroll_target_fields)

lemma update_position_no_cells:
  "cells b = [] \<Longrightarrow> update_position b dt e = Some (b, e)"
  by (simp add: update_position_def)

lemma reroll_target_env:
  "reroll_target b d e = (b1, e1) \<Longrightarrow>
     clock_src e1 = clock_src e \<and> uuid_src e1 = uuid_src e \<and> randint_src e1 = randint_src e"
  by (auto simp: reroll_target_def random_uniform_def random_random_def
      split: prod.splits if_splits)

lemma update_position_SomeD:
  assumes "update_position b dt e = Some (b', e')" and "cells b \<noteq> []"
  shows "\<exists>mx my. cells b' = map (move_cell mx my) (cells b)"
    and "total_mass b' = total_mass b" and "bot_id b' = bot_id b"
    and "name b' = name b" and "color b' = color b"
    and "last_update_time b' = clock_src e 0"
proof -
  from assms obtain com_x com_y b1 e1 mx my where
    r: "reroll_target b (pow_half ((target_x b - com_x)\<^sup>2 + (target_y b - com_y)\<^sup>2)) e
          = (b1, e1)"
    and b': "b' = b1\<lparr>cells := map (move_cell mx my) (cells b1),
                     last_update_time := clock_src e1 0\<rparr>"
    by (auto simp: update_position_def Let_def time_time_def
        split: prod.splits option.splits if_splits)
  note f = reroll_target_fields [OF r] reroll_target_env [OF r]
  show "\<exists>mx my. cells b' = map (move_cell mx my) (cells b)"
    using b' f by auto
  show "total_mass b' = total_mass b" "bot_id b' = bot_id b" "name b' = name b"
    "color b' = color b" "last_update_time b' = clock_src e 0"
    using b' f by simp_all
qed

lemma update_position_cells:
  assumes "update_position b dt e = Some (b', e')"
  shows "map radius (cells b') = map radius (cells b)"
    and "map mass (cells b') = map mass (cells b)"
    and "map cell_id (cells b') = map cell_id (cells b)"
    and "length (cells b') = length (cells b)"
proof -
  have "map radius (cells b') = map radius (cells b) \<and> map mass (cells b') = map mass (cells b)
      \<and> map cell_id (cells b') = map cell_id (cells b) \<and> length (cells b') = length (cells b)"
  proof (cases "cells b = []")
    case True
    with assms show ?thesis by (simp add: update_position_no_cells)
  next
    case False
    from update_position_SomeD(1) [OF assms False]
    obtain mx my where "cells b' = map (move_cell mx my) (cells b)" by blast
    then show ?thesis by (simp add: move_cell_fields comp_def)
  qed
  then show "map radius (cells b') = map radius (cells b)"
    and "map mass (cells b') = map mass (cells b)"
    and "map cell_id (cells b') = map cell_id (cells b)"
    and "length (cells b') = length (cells b)" by simp_all
qed

lemma update_position_total_mass:
  "update_position b dt e = Some (b', e') \<Longrightarrow> total_mass b' = total_mass b"
  by (cases "cells b = []") (auto simp: update_position_no_cells dest: update_position_SomeD(2))

lemma speed_antimono:
  assumes "0 \<le> m1" "m1 \<le> m2"
  shows "max (1 / 2) (BOT_BASE_SPEED / (1 + m2 / (BOT_INITIAL_MASS * 20)))
       \<le> max (1 / 2) (BOT_BASE_SPEED / (1 + m1 / (BOT_INITIAL_MASS * 20)))"
proof -
  have pos: "0 < BOT_INITIAL_MASS * 20" by (simp add: BOT_INITIAL_MASS_def)
  have "m1 / (BOT_INITIAL_MASS * 20) \<le> m2 / (BOT_INITIAL_MASS * 20)"
    using assms pos by (simp add: divide_right_mono)
  moreover have "0 \<le> m1 / (BOT_INITIAL_MASS * 20)" using assms pos by simp
  ultimately have "BOT_BASE_SPEED / (1 + m2 / (BOT_INITIAL_MASS * 20))
      \<le> BOT_BASE_SPEED / (1 + m1 / (BOT_INITIAL_MASS * 20))"
    by (intro divide_left_mono) (auto simp: BOT_BASE_SPEED_def intro: mult_pos_pos add_pos_nonneg)
  then show ?thesis by (simp add: max.coboundedI2)
qed

lemma move_magnitude:
  "sqrt ((cos a * s * dt * 60)\<^sup>2 + (sin a * s * dt * 60)\<^sup>2) = \<bar>s * dt * 60\<bar>"
proof -
  have "(cos a * s * dt * 60)\<^sup>2 + (sin a * s * dt * 60)\<^sup>2
      = (cos a)\<^sup>2 * (s * dt * 60)\<^sup>2 + (sin a)\<^sup>2 * (s * dt * 60)\<^sup>2"
    by (simp add: power_mult_distrib mult.assoc)
  also have "\<dots> = ((cos a)\<^sup>2 + (sin a)\<^sup>2) * (s * dt * 60)\<^sup>2"
    by (simp only: distrib_right)
  also have "\<dots> = (s * dt * 60)\<^sup>2" by simp
  finally show ?thesis by (simp only: real_sqrt_abs)
qed

lemma demo_cell_radius: "radius demo_cell = mass_to_radius (mass demo_cell)"
  by (simp add: demo_cell_def initial_radius)

lemma demo_update:
  assumes "rand_src e 0 = 1 / 2" "rand_src e (Suc 0) = 1 / 150"
  shows "update_position demo_bot (21 / 100) e =
     Some (demo_bot\<lparr>target_x := 1500, target_y := 20,
                     cells := [demo_cell\<lparr>cell_x := 50\<rparr>],
                     last_update_time := clock_src e 0\<rparr>,
           e\<lparr>rand_src := (\<lambda>n. rand_src e (Suc (Suc n))),
             clock_src := (\<lambda>n. clock_src e (Suc n))\<rparr>)"
proof -
  have c: "get_center_of_mass demo_bot = Some (20, 20)"
    by (simp add: get_center_of_mass_eq demo_bot_def demo_cell_def BOT_INITIAL_MASS_def)
  have r: "reroll_target demo_bot (pow_half ((target_x demo_bot - 20)\<^sup>2 + (target_y demo_bot - 20)\<^sup>2)) e
      = (demo_bot\<lparr>target_x := 1500, target_y := 20\<rparr>,
         e\<lparr>rand_src := (\<lambda>n. rand_src e (Suc (Suc n)))\<rparr>)"
    using assms
    by (simp add: reroll_target_def demo_bot_def pow_half_def random_uniform_def
        random_random_def WORLD_WIDTH_def WORLD_HEIGHT_def)
  have s: "bot_speed BOT_INITIAL_MASS = Some (50 / 21)"
    by (simp add: bot_speed_def py_truediv_def BOT_INITIAL_MASS_def BOT_BASE_SPEED_def)
  have a: "math_atan2 0 1480 = 0" by (simp add: math_atan2_def)
  have f: "total_mass demo_bot = BOT_INITIAL_MASS" "cells demo_bot = [demo_cell]"
    by (simp_all add: demo_bot_def)
  have m: "move_cell 30 0 demo_cell = demo_cell\<lparr>cell_x := 50\<rparr>"
    by (simp add: move_cell_def demo_cell_def WORLD_WIDTH_def WORLD_HEIGHT_def)
  show ?thesis
    by (simp add: update_position_def c r s a f m Let_def time_time_def)
qed

lemma create_bot_instance_eq:
  "create_bot_instance bots_data e =
     (\<lparr>bot_id = ''pybot_'' @ take 8 (uuid_src e 0),
       name = ''PyBot '' @ drop (length (''pybot_'' @ take 8 (uuid_src e 0)) - 3)
                (''pybot_'' @ take 8 (uuid_src e 0)),
       color = ''#'' @ format_06x (randint_src e 0),
       cells = [\<lparr>cell_id = take 6 (uuid_src e (Suc 0)),
                 cell_x = 100 + (WORLD_WIDTH - 100 - 100) * rand_src e (Suc (Suc 0)),
                 cell_y = 100 + (WORLD_HEIGHT - 100 - 100) * rand_src e (Suc (Suc (Suc 0))),
                 mass = BOT_INITIAL_MASS, radius = 15\<rparr>],
       target_x = WORLD_WIDTH * rand_src e 0,
       target_y = WORLD_HEIGHT * rand_src e (Suc 0),
       last_update_time = clock_src e 0,
       total_mass = BOT_INITIAL_MASS\<rparr>,
      bots_data,
      e\<lparr>rand_src := (\<lambda>n. rand_src e (Suc (Suc (Suc (Suc n))))),
        randint_src := (\<lambda>n. randint_src e (Suc n)),
        uuid_src := (\<lambda>n. uuid_src e (Suc (Suc n))),
        clock_src := (\<lambda>n. clock_src e (Suc n))\<rparr>)"
  by (simp add: create_bot_instance_def PyBot_init_def generate_bot_id_def uuid_uuid4_def
      random_randint_def random_uniform_def random_random_def time_time_def
      add_initial_cell_def PyBotCell_init_def recalculate_total_mass_def Let_def
      initial_radius)

lemma PyBot_init_fields:
  assumes "PyBot_init bid nm col bots_data e = (b, bots_data', e')"
  shows "bots_data' = bots_data" 
    and "\<exists>c. cells b = [c] \<and> mass c = BOT_INITIAL_MASS \<and> radius c = 15"
    and "total_mass b = BOT_INITIAL_MASS"
  using assms
  by (auto simp: PyBot_init_def generate_bot_id_def uuid_uuid4_def
      random_randint_def random_uniform_def random_random_def time_time_def
      add_initial_cell_def PyBotCell_init_def recalculate_total_mass_def Let_def
      initial_radius split: if_splits)

lemma create_bot_instance_fresh:
  "create_bot_instance bots_data e = (fresh_bot e, bots_data, env_after_bot e)"
  by (simp add: fresh_bot_def env_after_bot_def create_bot_instance_eq)

lemma fresh_bot_fields:
  "bot_id (fresh_bot e) = ''pybot_'' @ take 8 (uuid_src e 0)"
  "\<exists>c. cells (fresh_bot e) = [c] \<and> mass c = BOT_INITIAL_MASS \<and> radius c = 15"
  "total_mass (fresh_bot e) = BOT_INITIAL_MASS"
  "last_update_time (fresh_bot e) = clock_src e 0"
  by (simp_all add: fresh_bot_def create_bot_instance_eq)

lemma env_after_bot_uuid: "uuid_src (env_after_bot e) n = uuid_src e (Suc (Suc n))"
  by (simp add: env_after_bot_def create_bot_instance_eq)

lemma uuid_src_iter: "uuid_src ((env_after_bot ^^ i) e) n = uuid_src e (2 * i + n)"
  by (induction i arbitrary: n) (simp_all add: env_after_bot_uuid)

lemma fresh_bots_length: "length (fresh_bots n e) = n"
  by (induction n arbitrary: e) simp_all

lemma fresh_bots_nth:
  "i < n \<Longrightarrow> fresh_bots n e ! i = fresh_bot ((env_after_bot ^^ i) e)"
proof (induction n arbitrary: e i)
  case 0
  then show ?case by simp
next
  case (Suc n)
  show ?case
  proof (cases i)
    case 0
    then show ?thesis by simp
  next
    case (Suc j)
    with Suc.prems have "j < n" by simp
    from Suc.IH [OF this, of "env_after_bot e"] Suc show ?thesis
      by (simp add: funpow_swap1)
  qed
qed

lemma fresh_bots_ids:
  "map bot_id (fresh_bots n e) = map (\<lambda>i. ''pybot_'' @ take 8 (uuid_src e (2 * i))) [0..<n]"
  by (rule nth_equalityI)
     (simp_all add: fresh_bots_length fresh_bots_nth fresh_bot_fields uuid_src_iter)

lemma fresh_bots_all:
  "b \<in> set (fresh_bots n e) \<Longrightarrow>
     (\<exists>c. cells b = [c] \<and> mass c = BOT_INITIAL_MASS \<and> radius c = 15)
     \<and> total_mass b = BOT_INITIAL_MASS"
  by (induction n arbitrary: e) (auto simp: fresh_bot_fields)

lemma create_bots_fold:
  "create_bots n bots_data e =
     (fold (\<lambda>b r. AList.update (bot_id b) b r) (fresh_bots n e) bots_data,
      (env_after_bot ^^ n) e)"
  by (induction n arbitrary: bots_data e)
     (simp_all add: create_bot_instance_fresh funpow_swap1)

lemma update_fresh_key:
  "k \<notin> set (map fst r) \<Longrightarrow> AList.update k v r = r @ [(k, v)]"
  by (induction r) auto

lemma fold_update_distinct:
  "distinct (map fst r @ map bot_id bs) \<Longrightarrow>
     fold (\<lambda>b r. AList.update (bot_id b) b r) bs r = r @ map (\<lambda>b. (bot_id b, b)) bs"
proof (induction bs arbitrary: r)
  case Nil
  then show ?case by simp
next
  case (Cons b bs)
  from Cons.prems have k: "bot_id b \<notin> set (map fst r)" by auto
  from Cons.prems have "distinct (map fst (r @ [(bot_id b, b)]) @ map bot_id bs)" by auto
  from Cons.IH [OF this] k show ?case by (simp add: update_fresh_key)
qed

lemma fold_update_keys:
  "set (map fst (fold (\<lambda>b r. AList.update (bot_id b) b r) bs r))
     = set (map fst r) \<union> set (map bot_id bs)"
  by (induction bs arbitrary: r) (simp_all add: dom_update Un_assoc)

lemma fold_update_distinct_keys:
  "distinct (map fst r) \<Longrightarrow>
     distinct (map fst (fold (\<lambda>b r. AList.update (bot_id b) b r) bs r))"
  by (induction bs arbitrary: r) (simp_all add: distinct_update)

lemma update_length_le: "length (AList.update k v r) \<le> Suc (length r)"
  by (induction r) auto

lemma fold_update_length:
  "length (fold (\<lambda>b r. AList.update (bot_id b) b r) bs r) \<le> length r + length bs"
proof (induction bs arbitrary: r)
  case Nil
  then show ?case by simp
next
  case (Cons b bs)
  have "length (AList.update (bot_id b) b r) \<le> Suc (length r)"
    by (rule update_length_le)
  with Cons [of "AList.update (bot_id b) b r"] show ?case by simp
qed

lemma fold_update_entries:
  "(k, v) \<in> set (fold (\<lambda>b r. AList.update (bot_id b) b r) bs r) \<Longrightarrow>
     (k, v) \<in> set r \<or> (v \<in> set bs \<and> k = bot_id v)"
proof (induction bs arbitrary: r)
  case Nil
  then show ?case by simp
next
  case (Cons b bs)
  from Cons.IH [of "AList.update (bot_id b) b r"] Cons.prems
  have "(k, v) \<in> set (AList.update (bot_id b) b r) \<or> (v \<in> set bs \<and> k = bot_id v)" by simp
  moreover have "(k, v) \<in> set (AList.update (bot_id b) b r) \<Longrightarrow>
     (k, v) \<in> set r \<or> (v = b \<and> k = bot_id b)"
    by (induction r) (auto split: if_splits)
  ultimately show ?case by auto
qed

lemma demo_update_env:
  "update_position demo_bot (21 / 100) demo_env =
     Some (demo_bot\<lparr>target_x := 1500, target_y := 20, cells := [demo_cell\<lparr>cell_x := 50\<rparr>],
                     last_update_time := 21 / 100\<rparr>,
           demo_env\<lparr>rand_src := (\<lambda>n. 1 / 150), clock_src := (\<lambda>n. 21 / 100 + real (Suc n))\<rparr>)"
  using demo_update [of demo_env] by (simp add: demo_env_def)

lemma reset_all_bots_eq:
  "reset_all_bots (Some c) bots_data e =
     ((map to_dict (filter (\<lambda>b. cells b \<noteq> []) (map snd (fst (create_bots (nat c) [] e)))), 200),
      create_bots (nat c) [] e)"
  by (simp add: reset_all_bots_def split: prod.splits)

lemma create_bots_entries:
  assumes "(k, b) \<in> set (fst (create_bots n [] e))"
  shows "k = bot_id b" and "\<exists>c. cells b = [c] \<and> mass c = BOT_INITIAL_MASS \<and> radius c = 15"
    and "total_mass b = BOT_INITIAL_MASS"
proof -
  from assms have "b \<in> set (fresh_bots n e) \<and> k = bot_id b"
    using fold_update_entries [of k b "fresh_bots n e" "[]"] by (simp add: create_bots_fold)
  then show "k = bot_id b" and "\<exists>c. cells b = [c] \<and> mass c = BOT_INITIAL_MASS \<and> radius c = 15"
    and "total_mass b = BOT_INITIAL_MASS"
    using fresh_bots_all [of b n e] by auto
qed

lemma distinct_take8_ids:
  "distinct (map (\<lambda>i. ''pybot_'' @ take 8 (uuid_src e (2 * i))) [0..<n])
     = distinct (map (\<lambda>i. take 8 (uuid_src e (2 * i))) [0..<n])"
  by (simp add: distinct_map inj_on_def)

lemma delete_length_distinct:
  "distinct (map fst r) \<Longrightarrow> k \<in> set (map fst r) \<Longrightarrow> Suc (length (AList.delete k r)) = length r"
  by (induction r) (auto simp: delete_id image_iff)

lemma two_bots_keys: "map fst two_bots = [''pybot_1a2b3c4d'', ''pybot_deadbeef'']"
  by (simp add: two_bots_def)

lemma two_bots_delete: "AList.delete ''pybot_deadbeef'' two_bots = [(''pybot_1a2b3c4d'', demo_bot)]"
  by (simp add: two_bots_def AList.delete_eq)

lemma store_bot_middle:
  "k \<notin> set (map fst pre) \<Longrightarrow> k \<notin> set (map fst post) \<Longrightarrow>
     store_bot k b1 (pre @ (k, b) # post) = pre @ (k, b1) # post"
proof -
  assume a: "k \<notin> set (map fst pre)" "k \<notin> set (map fst post)"
  have "map (\<lambda>(k', b'). if k' = k then (k', b1) else (k', b')) r = r"
    if "k \<notin> set (map fst r)" for r :: registry
    using that by (induction r) auto
  with a show ?thesis by (simp add: store_bot_def)
qed

lemma delete_middle:
  "k \<notin> set (map fst pre) \<Longrightarrow> k \<notin> set (map fst post) \<Longrightarrow>
     AList.delete k (pre @ (k, b) # post) = pre @ post"
  by (induction pre) (auto simp: delete_id)

lemma get_bots_loop_advance:
  "distinct (map fst (pre @ items)) \<Longrightarrow>
     get_bots_loop t items acc (pre @ items) e =
       (case advance_all t items e of
          None \<Rightarrow> None
        | Some (r, e') \<Rightarrow>
            Some (acc @ map (\<lambda>(k, b). to_dict b) (filter (\<lambda>(k, b). cells b \<noteq> []) r),
                  pre @ filter (\<lambda>(k, b). cells b \<noteq> []) r, e'))"
proof (induction items arbitrary: pre acc e)
  case Nil
  then show ?case by simp
next
  case (Cons item items)
  obtain k b where item: "item = (k, b)" by (cases item)
  from Cons.prems have k: "k \<notin> set (map fst pre)" "k \<notin> set (map fst items)"
    and d: "distinct (map fst (pre @ items))"
    by (auto simp: item)
  show ?case
  proof (cases "update_position b (t - last_update_time b) e")
    case None
    then show ?thesis by (simp add: item)
  next
    case (Some p)
    obtain b1 e1 where p: "p = (b1, e1)" by (cases p)
    show ?thesis
    proof (cases "cells b1 = []")
      case True
      have "get_bots_loop t (item # items) acc (pre @ item # items) e
          = get_bots_loop t items acc (pre @ items) e1"
        using Some p True k by (simp add: item delete_middle)
      with Cons.IH [OF d, of acc e1] Some p True show ?thesis
        by (simp add: item split: option.splits)
    next
      case False
      from Cons.prems have d': "distinct (map fst ((pre @ [(k, b1)]) @ items))"
        by (auto simp: item)
      have "get_bots_loop t (item # items) acc (pre @ item # items) e
          = get_bots_loop t items (acc @ [to_dict b1]) ((pre @ [(k, b1)]) @ items) e1"
        using Some p False k by (simp add: item store_bot_middle)
      with Cons.IH [OF d', of "acc @ [to_dict b1]" e1] Some p False show ?thesis
        by (simp add: item split: option.splits)
    qed
  qed
qed

lemma advance_all_Some:
  "list_all (\<lambda>(k, b). total_mass b \<noteq> - (20 * BOT_INITIAL_MASS)) items \<Longrightarrow>
     \<exists>r e'. advance_all t items e = Some (r, e')"
proof (induction items arbitrary: e)
  case Nil
  then show ?case by simp
next
  case (Cons item items)
  obtain k b where item: "item = (k, b)" by (cases item)
  from Cons.prems have "total_mass b \<noteq> - (20 * BOT_INITIAL_MASS)" by (simp add: item)
  then obtain b1 e1 where u: "update_position b (t - last_update_time b) e = Some (b1, e1)"
    using update_position_cases [of b "t - last_update_time b" e]
    by (cases "update_position b (t - last_update_time b) e") auto
  from Cons.prems have "list_all (\<lambda>(k, b). total_mass b \<noteq> - (20 * BOT_INITIAL_MASS)) items"
    by simp
  from Cons.IH [OF this, of e1] u show ?case by (auto simp: item)
qed

lemma advance_all_SomeD:
  "advance_all t items e = Some (r, e') \<Longrightarrow>
     map fst r = map fst items \<and>
     (\<forall>i < length items. \<exists>ei ei'.
        update_position (snd (items ! i)) (t - last_update_time (snd (items ! i))) ei
          = Some (snd (r ! i), ei'))"
proof (induction items arbitrary: e r)
  case Nil
  then show ?case by simp
next
  case (Cons item items)
  obtain k b where item: "item = (k, b)" by (cases item)
  from Cons.prems obtain b1 e1 r1 where
    u: "update_position b (t - last_update_time b) e = Some (b1, e1)"
    and a: "advance_all t items e1 = Some (r1, e')" and r: "r = (k, b1) # r1"
    by (auto simp: item split: option.splits)
  from Cons.IH [OF a] have ih: "map fst r1 = map fst items"
    "\<forall>i < length items. \<exists>ei ei'.
        update_position (snd (items ! i)) (t - last_update_time (snd (items ! i))) ei
          = Some (snd (r1 ! i), ei')"
    by blast+
  have "\<exists>ei ei'. update_position (snd ((item # items) ! i))
          (t - last_update_time (snd ((item # items) ! i))) ei = Some (snd (r ! i), ei')"
    if "i < length (item # items)" for i
  proof (cases i)
    case 0
    with u show ?thesis by (auto simp: item r)
  next
    case (Suc j)
    with that ih(2) show ?thesis by (simp add: r)
  qed
  with ih(1) show ?case by (simp add: r item)
qed

lemma mixed_bots_run:
  "get_bots_data mixed_bots demo_env =
     Some ([to_dict (demo_bot\<lparr>target_x := 1500, target_y := 20,
                              cells := [demo_cell\<lparr>cell_x := 50\<rparr>],
                              last_update_time := 121 / 100\<rparr>)],
           [(''pybot_1a2b3c4d'',
             demo_bot\<lparr>target_x := 1500, target_y := 20, cells := [demo_cell\<lparr>cell_x := 50\<rparr>],
                       last_update_time := 121 / 100\<rparr>)],
           demo_env\<lparr>rand_src := (\<lambda>n. 1 / 150), clock_src := (\<lambda>n. 221 / 100 + real n)\<rparr>)"
proof -
  define e1 where "e1 = demo_env\<lparr>clock_src := (\<lambda>n. clock_src demo_env (Suc n))\<rparr>"
  have r: "rand_src e1 0 = 1 / 2" "rand_src e1 (Suc 0) = 1 / 150"
    by (simp_all add: e1_def demo_env_def)
  have t: "time_time demo_env = (21 / 100, e1)"
    by (simp add: time_time_def e1_def demo_env_def)
  have l: "last_update_time demo_bot = 0" "cells ghost_bot = []"
    by (simp_all add: demo_bot_def ghost_bot_def)
  have g: "update_position ghost_bot dt e = Some (ghost_bot, e)" for dt e
    by (simp add: update_position_no_cells l)
  show ?thesis
    by (simp add: get_bots_data_def t mixed_bots_def l demo_update [OF r] g store_bot_def
          AList.delete_eq)
       (simp add: e1_def demo_env_def add.commute)
qed

subsection \<open>Reachable registries\<close>

text \<open>
  Every registry the program can be in has distinct keys, and each of its bots is
  registered under its own identifier and is as constructed. So no bot of a reachable
  registry has the cached total mass at which the speed formula divides by zero, every
  cell fits into the arena, and \<^verbatim>\<open>get_bots_data\<close> returns and keeps every bot.
\<close>

lemma fresh_bot_ok: "bot_ok (fresh_bot e)"
  using fresh_bot_fields(2,3) [of e] by (simp add: bot_ok_def)

lemma update_entries:
  "(k', v') \<in> set (AList.update k v r) \<Longrightarrow> (k', v') \<in> set r \<or> (k' = k \<and> v' = v)"
  by (induction r) (auto split: if_splits)

lemma registry_ok_update:
  assumes "registry_ok r" and "bot_ok b"
  shows "registry_ok (AList.update (bot_id b) b r)"
proof -
  have "k = bot_id v \<and> bot_ok v" if "(k, v) \<in> set (AList.update (bot_id b) b r)" for k v
    using update_entries [OF that] assms by (auto simp: registry_ok_def list_all_iff)
  with assms(1) show ?thesis
    by (auto simp: registry_ok_def list_all_iff distinct_update)
qed

lemma registry_ok_delete:
  assumes "registry_ok r"
  shows "registry_ok (AList.delete k r)"
proof -
  have "set (AList.delete k r) \<subseteq> set r" by (auto simp: AList.delete_eq)
  with assms show ?thesis
    by (auto simp: registry_ok_def list_all_iff distinct_delete)
qed

lemma reset_all_bots_registry:
  "fst (snd (reset_all_bots c r e))
     = fst (create_bots (nat (case c of None \<Rightarrow> 10 | Some n \<Rightarrow> n)) [] e)"
  by (simp add: reset_all_bots_def Let_def split: prod.splits)

lemma registry_ok_create_bots:
  "registry_ok r \<Longrightarrow> registry_ok (fst (create_bots n r e))"
proof (induction n arbitrary: r e)
  case 0
  then show ?case by simp
next
  case (Suc n)
  from registry_ok_update [OF Suc.prems fresh_bot_ok [of e]]
  have "registry_ok (AList.update (bot_id (fresh_bot e)) (fresh_bot e) r)" .
  from Suc.IH [OF this] show ?case by (simp add: create_bot_instance_fresh)
qed

lemma update_position_ok:
  assumes "update_position b dt e = Some (b', e')" and "bot_ok b"
  shows "bot_ok b'" and "bot_id b' = bot_id b" and "cells b' \<noteq> []"
proof -
  from assms(2) obtain c where c: "cells b = [c]" "mass c = BOT_INITIAL_MASS" "radius c = 15"
    and t: "total_mass b = BOT_INITIAL_MASS"
    by (auto simp: bot_ok_def)
  from c have ne: "cells b \<noteq> []" by simp
  from update_position_SomeD(1) [OF assms(1) ne]
  obtain mx my where m: "cells b' = [move_cell mx my c]" by (auto simp: c)
  from m c t update_position_SomeD(2) [OF assms(1) ne]
  show "bot_ok b'" by (simp add: bot_ok_def move_cell_fields)
  from update_position_SomeD(3) [OF assms(1) ne] show "bot_id b' = bot_id b" .
  from m show "cells b' \<noteq> []" by simp
qed

lemma advance_all_ok:
  "advance_all t items e = Some (r, e') \<Longrightarrow>
     list_all (\<lambda>(k, b). k = bot_id b \<and> bot_ok b) items \<Longrightarrow>
     list_all (\<lambda>(k, b). k = bot_id b \<and> bot_ok b) r \<and>
     filter (\<lambda>(k, b). cells b \<noteq> []) r = r"
proof (induction items arbitrary: e r)
  case Nil
  then show ?case by simp
next
  case (Cons item items)
  obtain k b where item: "item = (k, b)" by (cases item)
  from Cons.prems(1) obtain b1 e1 r1 where
    u: "update_position b (t - last_update_time b) e = Some (b1, e1)"
    and a: "advance_all t items e1 = Some (r1, e')" and r: "r = (k, b1) # r1"
    by (auto simp: item split: option.splits)
  from Cons.prems(2) have kb: "k = bot_id b" "bot_ok b"
    and rest: "list_all (\<lambda>(k, b). k = bot_id b \<and> bot_ok b) items"
    by (simp_all add: item)
  from Cons.IH [OF a rest] update_position_ok [OF u kb(2)] kb(1) show ?case
    by (simp add: r)
qed

lemma registry_ok_get_bots_data:
  assumes "registry_ok r" and "get_bots_data r e = Some (out, r', e')"
  shows "registry_ok r'"
proof -
  define e1 where "e1 = e\<lparr>clock_src := (\<lambda>n. clock_src e (Suc n))\<rparr>"
  from assms(1) have d: "distinct (map fst ([] @ r))"
    and ok: "list_all (\<lambda>(k, b). k = bot_id b \<and> bot_ok b) r"
    by (simp_all add: registry_ok_def)
  from assms(2) get_bots_loop_advance [OF d, of "clock_src e 0" "[]" e1]
  obtain upd where a: "advance_all (clock_src e 0) r e1 = Some (upd, e')"
    and r': "r' = filter (\<lambda>(k, b). cells b \<noteq> []) upd"
    by (auto simp: get_bots_data_def time_time_def e1_def split: option.splits)
  from advance_all_ok [OF a ok] advance_all_SomeD [OF a] d show ?thesis
    by (simp add: registry_ok_def r')
qed

lemma reachable_registry_ok: "reachable r \<Longrightarrow> registry_ok r"
proof (induction rule: reachable.induct)
  case (reachable_startup e)
  have "registry_ok []" by (simp add: registry_ok_def)
  from registry_ok_create_bots [OF this] show ?case by (simp add: startup_def)
next
  case (reachable_reset r c e)
  have "registry_ok []" by (simp add: registry_ok_def)
  from registry_ok_create_bots [OF this] show ?case
    by (simp only: reset_all_bots_registry)
next
  case (reachable_eaten r k e)
  from registry_ok_update [OF registry_ok_delete [OF reachable_eaten.IH] fresh_bot_ok]
  show ?case by (simp add: bot_was_eaten_def create_bot_instance_fresh reachable_eaten.IH)
next
  case (reachable_listed r e active_bots r' e')
  from registry_ok_get_bots_data [OF reachable_listed.IH reachable_listed.hyps(2)]
  show ?case .
qed

lemma reachable_facts:
  assumes "reachable r"
  shows "distinct (map fst r)"
    and "\<forall>(k, b) \<in> set r. total_mass b \<noteq> - (20 * BOT_INITIAL_MASS)"
    and "\<forall>(k, b) \<in> set r. \<forall>c \<in> set (cells b). 2 * radius c \<le> 3000"
    and "\<exists>out r' e'. get_bots_data r e = Some (out, r', e') \<and> map fst r' = map fst r"
proof -
  from reachable_registry_ok [OF assms] have d: "distinct (map fst r)"
    and ok: "list_all (\<lambda>(k, b). k = bot_id b \<and> bot_ok b) r"
    by (simp_all add: registry_ok_def)
  have pos: "0 < BOT_INITIAL_MASS" by (simp add: BOT_INITIAL_MASS_def)
  from d show "distinct (map fst r)" .
  from ok pos show tm: "\<forall>(k, b) \<in> set r. total_mass b \<noteq> - (20 * BOT_INITIAL_MASS)"
    by (auto simp: list_all_iff bot_ok_def)
  from ok show "\<forall>(k, b) \<in> set r. \<forall>c \<in> set (cells b). 2 * radius c \<le> 3000"
    by (auto simp: list_all_iff bot_ok_def)
  define e1 where "e1 = e\<lparr>clock_src := (\<lambda>n. clock_src e (Suc n))\<rparr>"
  from tm have "list_all (\<lambda>(k, b). total_mass b \<noteq> - (20 * BOT_INITIAL_MASS)) r"
    by (simp add: list_all_iff)
  from advance_all_Some [OF this, of "clock_src e 0" e1]
  obtain upd e' where a: "advance_all (clock_src e 0) r e1 = Some (upd, e')" by blast
  from d have "distinct (map fst ([] @ r))" by simp
  from get_bots_loop_advance [OF this, of "clock_src e 0" "[]" e1] a
  have "get_bots_data r e =
      Some (map (\<lambda>(k, b). to_dict b) (filter (\<lambda>(k, b). cells b \<noteq> []) upd),
            filter (\<lambda>(k, b). cells b \<noteq> []) upd, e')"
    by (simp add: get_bots_data_def time_time_def e1_def)
  with advance_all_ok [OF a ok] advance_all_SomeD [OF a]
  show "\<exists>out r' e'. get_bots_data r e = Some (out, r', e') \<and> map fst r' = map fst r"
    by simp
qed

subsection \<open>The move made by an update\<close>

lemma update_position_clamp:
  assumes "cells b \<noteq> []" and "total_mass b \<noteq> - (20 * BOT_INITIAL_MASS)"
  shows "\<exists>b' e'. update_position b dt e = Some (b', e') \<and>
           (\<forall>c \<in> set (cells b'). 2 * radius c \<le> 3000 \<longrightarrow>
              radius c \<le> cell_x c \<and> cell_x c \<le> WORLD_WIDTH - radius c \<and>
              radius c \<le> cell_y c \<and> cell_y c \<le> WORLD_HEIGHT - radius c)"
proof -
  from assms obtain b' e' where u: "update_position b dt e = Some (b', e')"
    using update_position_cases [of b dt e] by (cases "update_position b dt e") auto
  from update_position_SomeD(1) [OF u assms(1)]
  obtain mx my where c: "cells b' = map (move_cell mx my) (cells b)" by blast
  have "radius c \<le> cell_x c \<and> cell_x c \<le> WORLD_WIDTH - radius c \<and>
        radius c \<le> cell_y c \<and> cell_y c \<le> WORLD_HEIGHT - radius c"
    if "c \<in> set (cells b')" "2 * radius c \<le> 3000" for c
  proof -
    from that(1) c obtain c0 where c0: "c = move_cell mx my c0" by auto
    with that(2) have "2 * radius c0 \<le> 3000" by (simp add: move_cell_fields)
    then show ?thesis
      by (simp add: c0 move_cell_fields WORLD_WIDTH_def WORLD_HEIGHT_def)
  qed
  with u show ?thesis by blast
qed

lemma update_position_move:
  assumes "cells b \<noteq> []" and "total_mass b \<noteq> - (20 * BOT_INITIAL_MASS)"
  shows "\<exists>a s b' e'. update_position b dt e = Some (b', e') \<and>
           bot_speed (total_mass b) = Some s \<and>
           cells b' = map (move_cell (cos a * s * dt * 60) (sin a * s * dt * 60)) (cells b)"
proof -
  from assms(1) obtain com_x com_y where c: "get_center_of_mass b = Some (com_x, com_y)"
    by (cases "total_mass b = 0") (simp_all add: get_center_of_mass_eq)
  obtain b1 e1 where
    r: "reroll_target b (pow_half ((target_x b - com_x)\<^sup>2 + (target_y b - com_y)\<^sup>2)) e
          = (b1, e1)"
    by (cases "reroll_target b
          (pow_half ((target_x b - com_x)\<^sup>2 + (target_y b - com_y)\<^sup>2)) e")
  note f = reroll_target_fields [OF r]
  from assms(2) obtain s where s: "bot_speed (total_mass b) = Some s"
    by (simp add: bot_speed_eq)
  define a where "a = math_atan2 (target_y b1 - com_y) (target_x b1 - com_x)"
  have "update_position b dt e =
      Some (b1\<lparr>cells := map (move_cell (cos a * s * dt * 60) (sin a * s * dt * 60)) (cells b1),
               last_update_time := clock_src e1 0\<rparr>,
            e1\<lparr>clock_src := (\<lambda>n. clock_src e1 (Suc n))\<rparr>)"
    using assms(1) s f by (simp add: update_position_def c r Let_def time_time_def a_def)
  with s f show ?thesis by auto
qed

lemma one_bot_registry:
  "fst (snd (reset_all_bots (Some 1) r demo_env)) = [(''pybot_1a2b3c4d'', fresh_bot demo_env)]"
proof -
  have "bot_id (fresh_bot demo_env) = ''pybot_1a2b3c4d''"
    by (simp add: fresh_bot_fields demo_env_def demo_uuids_def)
  then show ?thesis by (simp add: reset_all_bots_eq create_bots_fold)
qed

lemma update_cell_mass_demo:
  "update_cell_mass demo_bot 0 (4 * pi)
     = Some (demo_bot\<lparr>cells := [update_mass demo_cell (4 * pi)]\<rparr>)"
  by (simp add: update_cell_mass_def py_index_def demo_bot_def)

section \<open>The claims\<close>

text \<open>
  C1. In a registry with distinct keys (as a dictionary has) in which no bot has the cached
  total mass \<open>- 20 * BOT_INITIAL_MASS\<close> (the one value at which the speed formula divides
  by zero; no sum of non-negative masses is that number), \<^verbatim>\<open>get_bots_data\<close> returns.
  There is a list \<open>upd\<close> with the keys of the registry at the start, in their order, whose
  \<open>i\<close>-th bot is the result of \<^verbatim>\<open>update_position\<close> on the \<open>i\<close>-th registered bot with
  \<open>delta_time\<close> the current time (the clock read at the start of the call) minus the
  \<open>last_update_time\<close> of that bot. The snapshots returned are those of the bots of \<open>upd\<close>
  that have a cell, and the registry afterwards consists of exactly these bots: a bot
  without cells is neither returned nor kept. Both hypotheses hold in every reachable
  registry (\<open>reachable_facts\<close>).
\<close>

theorem list_and_advance:
  assumes "distinct (map fst bots_data)"
    and "\<forall>(k, b) \<in> set bots_data. total_mass b \<noteq> - (20 * BOT_INITIAL_MASS)"
  shows "\<exists>upd e'.
           get_bots_data bots_data e =
             Some (map (\<lambda>(k, b). to_dict b) (filter (\<lambda>(k, b). cells b \<noteq> []) upd),
                   filter (\<lambda>(k, b). cells b \<noteq> []) upd, e') \<and>
           map fst upd = map fst bots_data \<and>
           (\<forall>i < length bots_data. \<exists>ei ei'.
              update_position (snd (bots_data ! i))
                (clock_src e 0 - last_update_time (snd (bots_data ! i))) ei
                = Some (snd (upd ! i), ei'))"
proof -
  define e1 where "e1 = e\<lparr>clock_src := (\<lambda>n. clock_src e (Suc n))\<rparr>"
  from assms(2) have "list_all (\<lambda>(k, b). total_mass b \<noteq> - (20 * BOT_INITIAL_MASS)) bots_data"
    by (simp add: list_all_iff)
  from advance_all_Some [OF this, of "clock_src e 0" e1]
  obtain upd e' where a: "advance_all (clock_src e 0) bots_data e1 = Some (upd, e')" by blast
  from assms(1) have "distinct (map fst ([] @ bots_data))" by simp
  from get_bots_loop_advance [OF this, of "clock_src e 0" "[]" e1] a
  have "get_bots_data bots_data e =
      Some (map (\<lambda>(k, b). to_dict b) (filter (\<lambda>(k, b). cells b \<noteq> []) upd),
            filter (\<lambda>(k, b). cells b \<noteq> []) upd, e')"
    by (simp add: get_bots_data_def time_time_def e1_def)
  with advance_all_SomeD [OF a] show ?thesis by blast
qed

theorem list_and_advance_witness:
  "distinct (map fst mixed_bots) \<and>
   total_mass demo_bot \<noteq> - (20 * BOT_INITIAL_MASS) \<and>
   total_mass ghost_bot \<noteq> - (20 * BOT_INITIAL_MASS) \<and>
   get_bots_data mixed_bots demo_env =
     Some ([to_dict (demo_bot\<lparr>target_x := 1500, target_y := 20,
                              cells := [demo_cell\<lparr>cell_x := 50\<rparr>],
                              last_update_time := 121 / 100\<rparr>)],
           [(''pybot_1a2b3c4d'',
             demo_bot\<lparr>target_x := 1500, target_y := 20, cells := [demo_cell\<lparr>cell_x := 50\<rparr>],
                       last_update_time := 121 / 100\<rparr>)],
           demo_env\<lparr>rand_src := (\<lambda>n. 1 / 150), clock_src := (\<lambda>n. 221 / 100 + real n)\<rparr>) \<and>
   (\<exists>upd. map fst upd = [''pybot_1a2b3c4d'', ''pybot_00000000''] \<and>
      filter (\<lambda>(k, b). cells b \<noteq> []) upd =
        [(''pybot_1a2b3c4d'',
          demo_bot\<lparr>target_x := 1500, target_y := 20, cells := [demo_cell\<lparr>cell_x := 50\<rparr>],
                    last_update_time := 121 / 100\<rparr>)])"
proof -
  have d: "distinct (map fst mixed_bots)" by (simp add: mixed_bots_def)
  have m: "total_mass demo_bot \<noteq> - (20 * BOT_INITIAL_MASS)"
    "total_mass ghost_bot \<noteq> - (20 * BOT_INITIAL_MASS)"
    by (simp_all add: demo_bot_def ghost_bot_def BOT_INITIAL_MASS_def)
  then have h: "\<forall>(k, b) \<in> set mixed_bots. total_mass b \<noteq> - (20 * BOT_INITIAL_MASS)"
    by (simp add: mixed_bots_def)
  from list_and_advance [OF d h, of demo_env]
  obtain upd e' where
    "get_bots_data mixed_bots demo_env =
       Some (map (\<lambda>(k, b). to_dict b) (filter (\<lambda>(k, b). cells b \<noteq> []) upd),
             filter (\<lambda>(k, b). cells b \<noteq> []) upd, e')"
    and "map fst upd = map fst mixed_bots"
    by blast
  then have u: "map fst upd = [''pybot_1a2b3c4d'', ''pybot_00000000''] \<and>
      filter (\<lambda>(k, b). cells b \<noteq> []) upd =
        [(''pybot_1a2b3c4d'',
          demo_bot\<lparr>target_x := 1500, target_y := 20, cells := [demo_cell\<lparr>cell_x := 50\<rparr>],
                    last_update_time := 121 / 100\<rparr>)]"
    by (simp add: mixed_bots_run) (simp add: mixed_bots_def)
  have ex: "\<exists>upd. map fst upd = [''pybot_1a2b3c4d'', ''pybot_00000000''] \<and>
      filter (\<lambda>(k, b). cells b \<noteq> []) upd =
        [(''pybot_1a2b3c4d'',
          demo_bot\<lparr>target_x := 1500, target_y := 20, cells := [demo_cell\<lparr>cell_x := 50\<rparr>],
                    last_update_time := 121 / 100\<rparr>)]"
  proof (rule exI)
    show "map fst upd = [''pybot_1a2b3c4d'', ''pybot_00000000''] \<and>
      filter (\<lambda>(k, b). cells b \<noteq> []) upd =
        [(''pybot_1a2b3c4d'',
          demo_bot\<lparr>target_x := 1500, target_y := 20, cells := [demo_cell\<lparr>cell_x := 50\<rparr>],
                    last_update_time := 121 / 100\<rparr>)]"
      by (fact u)
  qed
  show ?thesis
    by (rule conjI [OF d conjI [OF m(1) conjI [OF m(2) conjI [OF mixed_bots_run ex]]]])
qed

text \<open>
  C2, as amended. \<^verbatim>\<open>reset_all_bots\<close> with \<open>count = n\<close> forgets the old registry and
  runs the constructor \<open>n\<close> times, registering each bot under its identifier. Afterwards
  the keys are distinct, every registered bot sits under its own identifier and has
  exactly one cell, of mass \<open>BOT_INITIAL_MASS\<close>, all registered bots are returned, and the
  registry holds at most \<open>n\<close> bots (none for \<open>n = 0\<close>). It holds exactly \<open>n\<close> bots when
  the \<open>n\<close> generated identifiers, cut from the uuids at the even places of the stream,
  are pairwise distinct.
\<close>

theorem reset_semantics:
  "\<exists>reg e'. reset_all_bots (Some (int n)) bots_data e = ((map (\<lambda>(k, b). to_dict b) reg, 200), reg, e')
     \<and> (reg, e') = create_bots n [] e
     \<and> distinct (map fst reg) \<and> length reg \<le> n
     \<and> (\<forall>(k, b) \<in> set reg. k = bot_id b \<and> (\<exists>c. cells b = [c] \<and> mass c = BOT_INITIAL_MASS))
     \<and> (distinct (map (\<lambda>i. take 8 (uuid_src e (2 * i))) [0..<n]) \<longrightarrow> length reg = n)"
proof -
  obtain reg e' where c: "create_bots n [] e = (reg, e')" by (cases "create_bots n [] e")
  have f: "reg = fold (\<lambda>b r. AList.update (bot_id b) b r) (fresh_bots n e) []"
    using c by (simp add: create_bots_fold)
  have ent: "k = bot_id b \<and> (\<exists>c. cells b = [c] \<and> mass c = BOT_INITIAL_MASS)"
    if "(k, b) \<in> set reg" for k b
    using create_bots_entries(1,2) [of k b n e] that c by auto
  then have "filter (\<lambda>b. cells b \<noteq> []) (map snd reg) = map snd reg"
    by (intro filter_True) fastforce
  then have 1: "reset_all_bots (Some (int n)) bots_data e
      = ((map (\<lambda>(k, b). to_dict b) reg, 200), reg, e')"
    by (simp add: reset_all_bots_eq c case_prod_beta comp_def)
  have 2: "distinct (map fst reg)"
    unfolding f by (rule fold_update_distinct_keys) simp
  have 3: "length reg \<le> n"
    using fold_update_length [of "fresh_bots n e" "[]"] by (simp add: f fresh_bots_length)
  have 4: "length reg = n" if "distinct (map (\<lambda>i. take 8 (uuid_src e (2 * i))) [0..<n])"
  proof -
    from that have "distinct (map bot_id (fresh_bots n e))"
      by (simp only: fresh_bots_ids distinct_take8_ids)
    then have "distinct (map fst ([] :: registry) @ map bot_id (fresh_bots n e))"
      by simp
    from fold_update_distinct [OF this] show ?thesis
      by (simp add: f fresh_bots_length)
  qed
  from 1 2 3 4 ent c show ?thesis by auto
qed

theorem reset_semantics_witness:
  "distinct (map (\<lambda>i. take 8 (uuid_src demo_env (2 * i))) [0..<2]) \<and>
   length (fst (snd (reset_all_bots (Some 2) two_bots demo_env))) = 2 \<and>
   length (fst (fst (reset_all_bots (Some 2) two_bots demo_env))) = 2 \<and>
   reset_all_bots (Some 0) two_bots demo_env = (([], 200), [], demo_env)"
proof -
  have h: "distinct (map (\<lambda>i. take 8 (uuid_src demo_env (2 * i))) [0..<2])"
    by (simp add: numeral_2_eq_2 demo_env_def demo_uuids_def)
  from reset_semantics [of 2 two_bots demo_env] h
  obtain reg e' where
    r: "reset_all_bots (Some 2) two_bots demo_env = ((map (\<lambda>(k, b). to_dict b) reg, 200), reg, e')"
    and l: "length reg = 2"
    by auto
  have 2: "length (fst (snd (reset_all_bots (Some 2) two_bots demo_env))) = 2 \<and>
      length (fst (fst (reset_all_bots (Some 2) two_bots demo_env))) = 2"
    by (simp add: r l)
  from reset_semantics [of 0 two_bots demo_env]
  obtain reg0 e0 where
    "reset_all_bots (Some 0) two_bots demo_env = ((map (\<lambda>(k, b). to_dict b) reg0, 200), reg0, e0)"
    and "(reg0, e0) = create_bots 0 [] demo_env"
    by auto
  then have 0: "reset_all_bots (Some 0) two_bots demo_env = (([], 200), [], demo_env)"
    by simp
  from h 2 0 show ?thesis by simp
qed

text \<open>
  C2, as stated, fails when two generated identifiers collide: an identifier is
  \<^verbatim>\<open>"pybot_"\<close> and the first eight characters of a uuid, and two different uuids can
  share those. Then the second bot replaces the first under the same key, and a reset
  with \<open>count = 2\<close> leaves one bot in the registry and returns one.
\<close>

theorem reset_semantics_counterexample:
  "length (fst (snd (reset_all_bots (Some 2) [] dup_env))) = 1 \<and>
   length (fst (fst (reset_all_bots (Some 2) [] dup_env))) = 1"
proof -
  have id0: "bot_id (fresh_bot dup_env) = ''pybot_1a2b3c4d''"
    by (simp add: fresh_bot_fields dup_env_def dup_uuids_def)
  have id1: "bot_id (fresh_bot (env_after_bot dup_env)) = ''pybot_1a2b3c4d''"
    by (simp add: fresh_bot_fields env_after_bot_uuid dup_env_def dup_uuids_def)
  have c: "fst (create_bots 2 [] dup_env)
      = [(''pybot_1a2b3c4d'', fresh_bot (env_after_bot dup_env))]"
    by (simp add: create_bots_fold numeral_2_eq_2 id0 id1)
  have ne: "cells (fresh_bot (env_after_bot dup_env)) \<noteq> []"
    using fresh_bot_fields(2) [of "env_after_bot dup_env"] by auto
  show ?thesis by (simp add: reset_all_bots_eq c ne)
qed

text \<open>
  C3, as amended. If \<open>k\<close> is registered, \<^verbatim>\<open>bot_was_eaten\<close> answers 200, deletes the
  entry of \<open>k\<close>, constructs one bot and registers it under its generated identifier; the
  key \<open>k\<close> is gone unless the new identifier is \<open>k\<close> itself; and when the new identifier
  is not the key of another registered bot, the registry is the old one without \<open>k\<close>
  followed by the new bot, of the same length as before. If \<open>k\<close> is not registered the
  answer is 404 and neither the registry nor the environment changes.
\<close>

theorem eliminate_semantics:
  "(k \<in> set (map fst bots_data) \<longrightarrow>
      (\<exists>msg. bot_was_eaten k bots_data e =
         ((msg, 200),
          AList.update (bot_id (fresh_bot e)) (fresh_bot e) (AList.delete k bots_data),
          env_after_bot e)) \<and>
      (bot_id (fresh_bot e) \<noteq> k \<longrightarrow>
         k \<notin> set (map fst (fst (snd (bot_was_eaten k bots_data e))))) \<and>
      (distinct (map fst bots_data) \<and>
       bot_id (fresh_bot e) \<notin> set (map fst (AList.delete k bots_data)) \<longrightarrow>
         fst (snd (bot_was_eaten k bots_data e))
           = AList.delete k bots_data @ [(bot_id (fresh_bot e), fresh_bot e)] \<and>
         length (fst (snd (bot_was_eaten k bots_data e))) = length bots_data)) \<and>
   (k \<notin> set (map fst bots_data) \<longrightarrow>
      (\<exists>msg. bot_was_eaten k bots_data e = ((msg, 404), bots_data, e)))"
proof -
  have 1: "bot_was_eaten k bots_data e =
      ((''Bot '' @ k @ '' acknowledged as eaten, new bot '' @ bot_id (fresh_bot e)
          @ '' spawned.'', 200),
       AList.update (bot_id (fresh_bot e)) (fresh_bot e) (AList.delete k bots_data),
       env_after_bot e)"
    if "k \<in> set (map fst bots_data)"
    using that by (simp add: bot_was_eaten_def create_bot_instance_fresh)
  have 2: "k \<notin> set (map fst (fst (snd (bot_was_eaten k bots_data e))))"
    if "k \<in> set (map fst bots_data)" "bot_id (fresh_bot e) \<noteq> k"
    using that delete_notin_dom [of k bots_data] by (simp add: 1 dom_update)
  have 3: "fst (snd (bot_was_eaten k bots_data e))
           = AList.delete k bots_data @ [(bot_id (fresh_bot e), fresh_bot e)] \<and>
         length (fst (snd (bot_was_eaten k bots_data e))) = length bots_data"
    if "k \<in> set (map fst bots_data)" "distinct (map fst bots_data)"
      "bot_id (fresh_bot e) \<notin> set (map fst (AList.delete k bots_data))"
    using that delete_length_distinct [of bots_data k] by (simp add: 1 update_fresh_key)
  have 4: "bot_was_eaten k bots_data e = ((''Bot '' @ k @ '' not found.'', 404), bots_data, e)"
    if "k \<notin> set (map fst bots_data)"
    using that by (simp add: bot_was_eaten_def)
  from 1 2 3 4 show ?thesis by blast
qed

theorem eliminate_semantics_witness:
  "''pybot_deadbeef'' \<in> set (map fst two_bots) \<and>
   distinct (map fst two_bots) \<and>
   bot_id (fresh_bot (env_after_bot demo_env)) = ''pybot_5e6f7a8b'' \<and>
   snd (fst (bot_was_eaten ''pybot_deadbeef'' two_bots (env_after_bot demo_env))) = 200 \<and>
   fst (snd (bot_was_eaten ''pybot_deadbeef'' two_bots (env_after_bot demo_env)))
     = [(''pybot_1a2b3c4d'', demo_bot),
        (''pybot_5e6f7a8b'', fresh_bot (env_after_bot demo_env))] \<and>
   ''nonexistent'' \<notin> set (map fst two_bots) \<and>
   bot_was_eaten ''nonexistent'' two_bots demo_env
     = ((''Bot nonexistent not found.'', 404), two_bots, demo_env)"
proof -
  have i: "bot_id (fresh_bot (env_after_bot demo_env)) = ''pybot_5e6f7a8b''"
    by (simp add: fresh_bot_fields env_after_bot_uuid demo_env_def demo_uuids_def)
  have h: "''pybot_deadbeef'' \<in> set (map fst two_bots)" "distinct (map fst two_bots)"
    "bot_id (fresh_bot (env_after_bot demo_env))
       \<notin> set (map fst (AList.delete ''pybot_deadbeef'' two_bots))"
    "''nonexistent'' \<notin> set (map fst two_bots)"
    by (simp_all add: two_bots_keys two_bots_delete i)
  have n: "bot_was_eaten ''nonexistent'' two_bots demo_env
     = ((''Bot nonexistent not found.'', 404), two_bots, demo_env)"
    using eliminate_semantics [of "''nonexistent''" two_bots demo_env] h(4)
    by (auto simp: bot_was_eaten_def)
  from eliminate_semantics [of "''pybot_deadbeef''" two_bots "env_after_bot demo_env"] h
  have "(\<exists>msg. bot_was_eaten ''pybot_deadbeef'' two_bots (env_after_bot demo_env) =
         ((msg, 200),
          AList.update (bot_id (fresh_bot (env_after_bot demo_env)))
            (fresh_bot (env_after_bot demo_env)) (AList.delete ''pybot_deadbeef'' two_bots),
          env_after_bot (env_after_bot demo_env)))"
    and "fst (snd (bot_was_eaten ''pybot_deadbeef'' two_bots (env_after_bot demo_env)))
           = AList.delete ''pybot_deadbeef'' two_bots
               @ [(bot_id (fresh_bot (env_after_bot demo_env)), fresh_bot (env_after_bot demo_env))]"
    by blast+
  then have "snd (fst (bot_was_eaten ''pybot_deadbeef'' two_bots (env_after_bot demo_env))) = 200"
    and "fst (snd (bot_was_eaten ''pybot_deadbeef'' two_bots (env_after_bot demo_env)))
     = [(''pybot_1a2b3c4d'', demo_bot),
        (''pybot_5e6f7a8b'', fresh_bot (env_after_bot demo_env))]"
    by (auto simp: two_bots_delete i)
  with h i n show ?thesis by simp
qed

text \<open>
  C3, as stated, fails when the identifier generated for the replacement is the key of
  another registered bot: the replacement then takes the place of that bot, and the
  registry has one bot fewer than before. Here the registry holds two bots and the
  generated identifier is that of the first; the second is eliminated and one bot is left.
\<close>

theorem eliminate_semantics_counterexample:
  "''pybot_deadbeef'' \<in> set (map fst two_bots) \<and>
   length two_bots = 2 \<and>
   snd (fst (bot_was_eaten ''pybot_deadbeef'' two_bots demo_env)) = 200 \<and>
   fst (snd (bot_was_eaten ''pybot_deadbeef'' two_bots demo_env))
     = [(''pybot_1a2b3c4d'', fresh_bot demo_env)] \<and>
   length (fst (snd (bot_was_eaten ''pybot_deadbeef'' two_bots demo_env))) = 1"
proof -
  have i: "bot_id (fresh_bot demo_env) = ''pybot_1a2b3c4d''"
    by (simp add: fresh_bot_fields demo_env_def demo_uuids_def)
  have k: "''pybot_deadbeef'' \<in> set (map fst two_bots)" by (simp add: two_bots_keys)
  have l: "length two_bots = 2" by (simp add: two_bots_def)
  have "bot_was_eaten ''pybot_deadbeef'' two_bots demo_env =
      ((''Bot pybot_deadbeef acknowledged as eaten, new bot pybot_1a2b3c4d spawned.'', 200),
       [(''pybot_1a2b3c4d'', fresh_bot demo_env)], env_after_bot demo_env)"
    using k by (simp add: bot_was_eaten_def create_bot_instance_fresh two_bots_delete i)
  with k l show ?thesis by simp
qed

text \<open>
  C4. Every bot of every registry the program can be in has at least one cell, a call of
  \<^verbatim>\<open>update_position\<close> on it returns, whatever \<open>delta_time\<close> and the environment are,
  and afterwards every cell of the bot satisfies \<open>radius \<le> x \<le> WORLD_WIDTH - radius\<close> and
  \<open>radius \<le> y \<le> WORLD_HEIGHT - radius\<close>.
\<close>

theorem bounds_clamp:
  assumes "reachable r" and "(k, b) \<in> set r"
  shows "cells b \<noteq> [] \<and>
         (\<exists>b' e'. update_position b dt e = Some (b', e') \<and> cells b' \<noteq> [] \<and>
            (\<forall>c \<in> set (cells b').
               radius c \<le> cell_x c \<and> cell_x c \<le> WORLD_WIDTH - radius c \<and>
               radius c \<le> cell_y c \<and> cell_y c \<le> WORLD_HEIGHT - radius c))"
proof -
  from reachable_registry_ok [OF assms(1)] assms(2) have ok: "bot_ok b"
    by (auto simp: registry_ok_def list_all_iff)
  then obtain c0 where c0: "cells b = [c0]" "radius c0 = 15"
    and t: "total_mass b = BOT_INITIAL_MASS"
    by (auto simp: bot_ok_def)
  have pos: "0 < BOT_INITIAL_MASS" by (simp add: BOT_INITIAL_MASS_def)
  from c0 have ne: "cells b \<noteq> []" by simp
  from t pos have tm: "total_mass b \<noteq> - (20 * BOT_INITIAL_MASS)" by simp
  from update_position_clamp [OF ne tm, of dt e]
  obtain b' e' where u: "update_position b dt e = Some (b', e')"
    and cl: "\<forall>c \<in> set (cells b'). 2 * radius c \<le> 3000 \<longrightarrow>
              radius c \<le> cell_x c \<and> cell_x c \<le> WORLD_WIDTH - radius c \<and>
              radius c \<le> cell_y c \<and> cell_y c \<le> WORLD_HEIGHT - radius c"
    by blast
  from update_position_cells(1) [OF u] c0 have "map radius (cells b') = [15]" by simp
  then have r15: "radius c = 15" if "c \<in> set (cells b')" for c
  proof -
    from that have "radius c \<in> set (map radius (cells b'))" by simp
    with \<open>map radius (cells b') = [15]\<close> show ?thesis by simp
  qed
  from update_position_ok(3) [OF u ok] have ne': "cells b' \<noteq> []" .
  from cl r15 have bd: "\<forall>c \<in> set (cells b').
               radius c \<le> cell_x c \<and> cell_x c \<le> WORLD_WIDTH - radius c \<and>
               radius c \<le> cell_y c \<and> cell_y c \<le> WORLD_HEIGHT - radius c"
    by simp
  have "\<exists>b' e'. update_position b dt e = Some (b', e') \<and> cells b' \<noteq> [] \<and>
            (\<forall>c \<in> set (cells b').
               radius c \<le> cell_x c \<and> cell_x c \<le> WORLD_WIDTH - radius c \<and>
               radius c \<le> cell_y c \<and> cell_y c \<le> WORLD_HEIGHT - radius c)"
    by (rule exI [of _ b'], rule exI [of _ e']) (rule conjI [OF u conjI [OF ne' bd]])
  with ne show ?thesis by (rule conjI)
qed

theorem bounds_clamp_witness:
  "reachable (fst (snd (reset_all_bots (Some 1) (fst (startup demo_env)) demo_env))) \<and>
   (''pybot_1a2b3c4d'', fresh_bot demo_env)
     \<in> set (fst (snd (reset_all_bots (Some 1) (fst (startup demo_env)) demo_env))) \<and>
   cells (fresh_bot demo_env) \<noteq> [] \<and>
   (\<exists>b' e'. update_position (fresh_bot demo_env) (21 / 100) demo_env = Some (b', e') \<and>
      cells b' \<noteq> [] \<and>
      (\<forall>c \<in> set (cells b').
         radius c \<le> cell_x c \<and> cell_x c \<le> WORLD_WIDTH - radius c \<and>
         radius c \<le> cell_y c \<and> cell_y c \<le> WORLD_HEIGHT - radius c))"
proof -
  have r: "reachable (fst (snd (reset_all_bots (Some 1) (fst (startup demo_env)) demo_env)))"
    by (rule reachable_reset [OF reachable_startup])
  have m: "(''pybot_1a2b3c4d'', fresh_bot demo_env)
     \<in> set (fst (snd (reset_all_bots (Some 1) (fst (startup demo_env)) demo_env)))"
    by (simp add: one_bot_registry)
  note bc = bounds_clamp [OF r m, of "21 / 100" demo_env]
  show ?thesis by (rule conjI [OF r conjI [OF m bc]])
qed

text \<open>
  C5. A call of \<^verbatim>\<open>update_position\<close> on a bot with cells and a non-negative total mass
  (masses are positive in the data model) returns, and it moves every cell of the bot by
  the vector \<open>(cos a * s * delta_time * 60, sin a * s * delta_time * 60)\<close> before the
  clamp, for some angle \<open>a\<close> and the speed
  \<open>s = max 0.5 (2.5 / (1 + total_mass / (BOT_INITIAL_MASS * 20)))\<close>. The length of that
  vector is \<open>s * \<bar>delta_time\<bar> * 60\<close>. For two bots with total masses \<open>m1 \<le> m2\<close> and the
  same \<open>delta_time\<close>, the displacement of the heavier bot is at most that of the lighter
  one, and it is never below that of speed 0.5.
\<close>

theorem speed_monotone:
  assumes "cells b1 \<noteq> []" and "cells b2 \<noteq> []"
    and "0 \<le> total_mass b1" and "total_mass b1 \<le> total_mass b2"
  shows "\<exists>a1 s1 b1' e1' a2 s2 b2' e2'.
           update_position b1 dt e1 = Some (b1', e1') \<and>
           update_position b2 dt e2 = Some (b2', e2') \<and>
           s1 = max (1 / 2) (5 / 2 / (1 + total_mass b1 / (pi * 15 * 15 * 20))) \<and>
           s2 = max (1 / 2) (5 / 2 / (1 + total_mass b2 / (pi * 15 * 15 * 20))) \<and>
           cells b1' = map (move_cell (cos a1 * s1 * dt * 60) (sin a1 * s1 * dt * 60)) (cells b1) \<and>
           cells b2' = map (move_cell (cos a2 * s2 * dt * 60) (sin a2 * s2 * dt * 60)) (cells b2) \<and>
           sqrt ((cos a1 * s1 * dt * 60)\<^sup>2 + (sin a1 * s1 * dt * 60)\<^sup>2) = s1 * \<bar>dt\<bar> * 60 \<and>
           sqrt ((cos a2 * s2 * dt * 60)\<^sup>2 + (sin a2 * s2 * dt * 60)\<^sup>2) = s2 * \<bar>dt\<bar> * 60 \<and>
           s2 * \<bar>dt\<bar> * 60 \<le> s1 * \<bar>dt\<bar> * 60 \<and>
           1 / 2 * \<bar>dt\<bar> * 60 \<le> s2 * \<bar>dt\<bar> * 60"
proof -
  have pos: "0 < BOT_INITIAL_MASS" by (simp add: BOT_INITIAL_MASS_def)
  from assms(3,4) pos have n1: "total_mass b1 \<noteq> - (20 * BOT_INITIAL_MASS)"
    and n2: "total_mass b2 \<noteq> - (20 * BOT_INITIAL_MASS)"
    by auto
  from update_position_move [OF assms(1) n1, of dt e1]
  obtain a1 s1 b1' e1' where u1: "update_position b1 dt e1 = Some (b1', e1')"
    and sp1: "bot_speed (total_mass b1) = Some s1"
    and c1: "cells b1' = map (move_cell (cos a1 * s1 * dt * 60) (sin a1 * s1 * dt * 60)) (cells b1)"
    by blast
  from update_position_move [OF assms(2) n2, of dt e2]
  obtain a2 s2 b2' e2' where u2: "update_position b2 dt e2 = Some (b2', e2')"
    and sp2: "bot_speed (total_mass b2) = Some s2"
    and c2: "cells b2' = map (move_cell (cos a2 * s2 * dt * 60) (sin a2 * s2 * dt * 60)) (cells b2)"
    by blast
  from sp1 n1 have d1: "s1 = max (1 / 2) (BOT_BASE_SPEED / (1 + total_mass b1 / (BOT_INITIAL_MASS * 20)))"
    by (simp add: bot_speed_eq)
  from sp2 n2 have d2: "s2 = max (1 / 2) (BOT_BASE_SPEED / (1 + total_mass b2 / (BOT_INITIAL_MASS * 20)))"
    by (simp add: bot_speed_eq)
  have le: "s2 \<le> s1" unfolding d1 d2 by (rule speed_antimono [OF assms(3,4)])
  have lo: "1 / 2 \<le> s2" "1 / 2 \<le> s1" by (simp_all add: d1 d2)
  have mag: "sqrt ((cos a * s * dt * 60)\<^sup>2 + (sin a * s * dt * 60)\<^sup>2) = s * \<bar>dt\<bar> * 60"
    if "1 / 2 \<le> s" for a s :: real
  proof -
    have "\<bar>s * dt * 60\<bar> = s * \<bar>dt\<bar> * 60" using that by (simp add: abs_mult)
    then show ?thesis by (simp only: move_magnitude)
  qed
  have m1: "s2 * \<bar>dt\<bar> * 60 \<le> s1 * \<bar>dt\<bar> * 60"
    by (intro mult_right_mono le) simp_all
  have m2: "1 / 2 * \<bar>dt\<bar> * 60 \<le> s2 * \<bar>dt\<bar> * 60"
    by (intro mult_right_mono lo(1)) simp_all
  have f1: "s1 = max (1 / 2) (5 / 2 / (1 + total_mass b1 / (pi * 15 * 15 * 20)))"
    and f2: "s2 = max (1 / 2) (5 / 2 / (1 + total_mass b2 / (pi * 15 * 15 * 20)))"
    using d1 d2 by (simp_all add: BOT_BASE_SPEED_def BOT_INITIAL_MASS_def)
  show ?thesis
    apply (rule exI [of _ a1], rule exI [of _ s1], rule exI [of _ b1'], rule exI [of _ e1'])
    apply (rule exI [of _ a2], rule exI [of _ s2], rule exI [of _ b2'], rule exI [of _ e2'])
    apply (rule conjI [OF u1 conjI [OF u2 conjI [OF f1 conjI [OF f2 conjI [OF c1 conjI [OF c2
             conjI [OF mag [OF lo(2)] conjI [OF mag [OF lo(1)] conjI [OF m1 m2]]]]]]]]])
    done
qed

theorem speed_monotone_witness:
  "cells demo_bot \<noteq> [] \<and> cells heavy_bot \<noteq> [] \<and>
   0 \<le> total_mass demo_bot \<and> total_mass demo_bot \<le> total_mass heavy_bot \<and>
   update_position demo_bot (21 / 100) demo_env =
     Some (demo_bot\<lparr>target_x := 1500, target_y := 20, cells := [demo_cell\<lparr>cell_x := 50\<rparr>],
                     last_update_time := 21 / 100\<rparr>,
           demo_env\<lparr>rand_src := (\<lambda>n. 1 / 150), clock_src := (\<lambda>n. 21 / 100 + real (Suc n))\<rparr>) \<and>
   max (1 / 2) (5 / 2 / (1 + total_mass demo_bot / (pi * 15 * 15 * 20))) = (50 / 21 :: real) \<and>
   max (1 / 2) (5 / 2 / (1 + total_mass heavy_bot / (pi * 15 * 15 * 20))) = (25 / 11 :: real) \<and>
   (25 / 11 :: real) * \<bar>21 / 100\<bar> * 60 \<le> 50 / 21 * \<bar>21 / 100\<bar> * 60"
proof -
  have h: "cells demo_bot \<noteq> []" "cells heavy_bot \<noteq> []"
    "0 \<le> total_mass demo_bot" "total_mass demo_bot \<le> total_mass heavy_bot"
    by (simp_all add: demo_bot_def heavy_bot_def BOT_INITIAL_MASS_def)
  have v1: "max (1 / 2) (5 / 2 / (1 + total_mass demo_bot / (pi * 15 * 15 * 20))) = (50 / 21 :: real)"
    by (simp add: demo_bot_def BOT_INITIAL_MASS_def)
  have v2: "max (1 / 2) (5 / 2 / (1 + total_mass heavy_bot / (pi * 15 * 15 * 20))) = (25 / 11 :: real)"
    by (simp add: heavy_bot_def BOT_INITIAL_MASS_def)
  from speed_monotone [OF h, of "21 / 100" demo_env demo_env]
  obtain s1 s2 :: real where
    "s1 = max (1 / 2) (5 / 2 / (1 + total_mass demo_bot / (pi * 15 * 15 * 20)))"
    and "s2 = max (1 / 2) (5 / 2 / (1 + total_mass heavy_bot / (pi * 15 * 15 * 20)))"
    and "s2 * \<bar>21 / 100\<bar> * 60 \<le> s1 * \<bar>21 / 100\<bar> * 60"
    by blast
  then have i: "(25 / 11 :: real) * \<bar>21 / 100\<bar> * 60 \<le> 50 / 21 * \<bar>21 / 100\<bar> * 60"
    by (simp only: v1 v2)
  show ?thesis
    by (rule conjI [OF h(1) conjI [OF h(2) conjI [OF h(3) conjI [OF h(4)
          conjI [OF demo_update_env conjI [OF v1 conjI [OF v2 i]]]]]]])
qed

text \<open>
  C6. A cell constructed with a mass \<open>m \<ge> 0\<close> has that mass and radius \<open>sqrt (m / pi)\<close>;
  so has a cell after \<^verbatim>\<open>update_mass\<close> to \<open>m\<close>. The only other function that changes
  cells, \<^verbatim>\<open>update_position\<close>, leaves the mass and the radius of every cell as they
  were: the radius is set nowhere but together with the mass.
\<close>

theorem radius_consistency:
  "(0 \<le> m \<longrightarrow>
      mass (fst (PyBotCell_init px py m cid e)) = m \<and>
      radius (fst (PyBotCell_init px py m cid e)) = sqrt (m / pi)) \<and>
   (0 \<le> m \<longrightarrow>
      mass (update_mass c m) = m \<and> radius (update_mass c m) = sqrt (m / pi)) \<and>
   (update_position b dt e = Some (b', e') \<longrightarrow>
      map mass (cells b') = map mass (cells b) \<and>
      map radius (cells b') = map radius (cells b))"
  by (auto simp: PyBotCell_init_def update_mass_def mass_to_radius_sqrt uuid_uuid4_def
      update_position_cells split: prod.splits if_splits)

theorem radius_consistency_witness:
  "(0::real) \<le> 4 * pi \<and>
   update_position demo_bot (21 / 100) demo_env =
     Some (demo_bot\<lparr>target_x := 1500, target_y := 20, cells := [demo_cell\<lparr>cell_x := 50\<rparr>],
                     last_update_time := 21 / 100\<rparr>,
           demo_env\<lparr>rand_src := (\<lambda>n. 1 / 150), clock_src := (\<lambda>n. 21 / 100 + real (Suc n))\<rparr>) \<and>
   radius (fst (PyBotCell_init 7 9 (4 * pi) None demo_env)) = 2 \<and>
   radius (update_mass demo_cell (4 * pi)) = 2 \<and>
   map radius (cells (demo_bot\<lparr>target_x := 1500, target_y := 20,
       cells := [demo_cell\<lparr>cell_x := 50\<rparr>], last_update_time := 21 / 100\<rparr>)) = map radius (cells demo_bot)"
proof -
  have u: "update_position demo_bot (21 / 100) demo_env =
     Some (demo_bot\<lparr>target_x := 1500, target_y := 20, cells := [demo_cell\<lparr>cell_x := 50\<rparr>],
                     last_update_time := 21 / 100\<rparr>,
           demo_env\<lparr>rand_src := (\<lambda>n. 1 / 150), clock_src := (\<lambda>n. 21 / 100 + real (Suc n))\<rparr>)"
    using demo_update [of demo_env] by (simp add: demo_env_def)
  have s: "sqrt (4 * pi / pi) = 2" using real_sqrt_abs [of 2] by simp
  from radius_consistency [of "4 * pi" 7 9 None demo_env demo_cell demo_bot "21 / 100"
      "demo_bot\<lparr>target_x := 1500, target_y := 20, cells := [demo_cell\<lparr>cell_x := 50\<rparr>],
                     last_update_time := 21 / 100\<rparr>"
      "demo_env\<lparr>rand_src := (\<lambda>n. 1 / 150), clock_src := (\<lambda>n. 21 / 100 + real (Suc n))\<rparr>"]
  show ?thesis using u s by simp
qed

text \<open>
  C7, as amended. The cached \<open>total_mass\<close> of a bot is the sum of the masses of its cells
  after construction, after \<^verbatim>\<open>add_initial_cell\<close> and after
  \<^verbatim>\<open>recalculate_total_mass\<close>, and \<^verbatim>\<open>update_position\<close>, which moves the cells, keeps
  the equality. \<^verbatim>\<open>update_mass\<close> on a cell of the bot changes the mass of the cell and
  leaves the cached total of the bot as it was; the total is the sum again once
  \<^verbatim>\<open>recalculate_total_mass\<close> has run.
\<close>

theorem total_mass_invariant:
  "(PyBot_init bid nm col bots_data e = (b0, bots_data0, e0) \<longrightarrow>
      total_mass b0 = sum_list (map mass (cells b0))) \<and>
   total_mass (fst (add_initial_cell b bots_data e))
     = sum_list (map mass (cells (fst (add_initial_cell b bots_data e)))) \<and>
   total_mass (fst (recalculate_total_mass b bots_data))
     = sum_list (map mass (cells (fst (recalculate_total_mass b bots_data)))) \<and>
   (total_mass b = sum_list (map mass (cells b)) \<and> update_position b dt e = Some (b', e') \<longrightarrow>
      total_mass b' = sum_list (map mass (cells b'))) \<and>
   (update_cell_mass b i m = Some b1 \<longrightarrow>
      total_mass b1 = total_mass b \<and>
      total_mass (fst (recalculate_total_mass b1 bots_data)) = sum_list (map mass (cells b1)))"
proof -
  have 1: "total_mass b0 = sum_list (map mass (cells b0))"
    if "PyBot_init bid nm col bots_data e = (b0, bots_data0, e0)"
    using PyBot_init_fields(2,3) [OF that] by auto
  have 2: "total_mass (fst (recalculate_total_mass b bots_data))
     = sum_list (map mass (cells (fst (recalculate_total_mass b bots_data))))" for b
    by (simp add: recalculate_total_mass_def Let_def)
  have 3: "total_mass (fst (add_initial_cell b bots_data e))
     = sum_list (map mass (cells (fst (add_initial_cell b bots_data e))))"
    by (simp add: add_initial_cell_def recalculate_total_mass_def Let_def split: prod.splits)
  have 4: "total_mass b' = sum_list (map mass (cells b'))"
    if "total_mass b = sum_list (map mass (cells b))" "update_position b dt e = Some (b', e')"
    using that update_position_total_mass [OF that(2)] update_position_cells(2) [OF that(2)]
    by simp
  have 5: "total_mass b1 = total_mass b \<and>
      total_mass (fst (recalculate_total_mass b1 bots_data)) = sum_list (map mass (cells b1))"
    if "update_cell_mass b i m = Some b1"
    using that by (auto simp: update_cell_mass_def recalculate_total_mass_def Let_def)
  show ?thesis
    apply (intro conjI impI)
          apply (erule 1)
         apply (rule 3)
        apply (rule 2)
       apply (erule conjE, erule (1) 4)
      apply (drule 5, erule conjunct1)
     apply (drule 5, erule conjunct2)
    done
qed

theorem total_mass_invariant_witness:
  "PyBot_init None None None [] demo_env = (fresh_bot demo_env, [], env_after_bot demo_env) \<and>
   total_mass (fresh_bot demo_env) = sum_list (map mass (cells (fresh_bot demo_env))) \<and>
   total_mass demo_bot = sum_list (map mass (cells demo_bot)) \<and>
   update_position demo_bot (21 / 100) demo_env =
     Some (demo_bot\<lparr>target_x := 1500, target_y := 20, cells := [demo_cell\<lparr>cell_x := 50\<rparr>],
                     last_update_time := 21 / 100\<rparr>,
           demo_env\<lparr>rand_src := (\<lambda>n. 1 / 150), clock_src := (\<lambda>n. 21 / 100 + real (Suc n))\<rparr>) \<and>
   total_mass (demo_bot\<lparr>target_x := 1500, target_y := 20,
                        cells := [demo_cell\<lparr>cell_x := 50\<rparr>], last_update_time := 21 / 100\<rparr>)
     = sum_list (map mass (cells (demo_bot\<lparr>target_x := 1500, target_y := 20,
                        cells := [demo_cell\<lparr>cell_x := 50\<rparr>], last_update_time := 21 / 100\<rparr>))) \<and>
   update_cell_mass demo_bot 0 (4 * pi)
     = Some (demo_bot\<lparr>cells := [update_mass demo_cell (4 * pi)]\<rparr>) \<and>
   total_mass (demo_bot\<lparr>cells := [update_mass demo_cell (4 * pi)]\<rparr>) = total_mass demo_bot \<and>
   total_mass (fst (recalculate_total_mass
                      (demo_bot\<lparr>cells := [update_mass demo_cell (4 * pi)]\<rparr>) [])) = 4 * pi"
proof -
  have i: "PyBot_init None None None [] demo_env
      = (fresh_bot demo_env, [], env_after_bot demo_env)"
    using create_bot_instance_fresh [of "[]" demo_env] by (simp add: create_bot_instance_def)
  have d: "total_mass demo_bot = sum_list (map mass (cells demo_bot))"
    by (simp add: demo_bot_def demo_cell_def)
  note t = total_mass_invariant [of None None None "[]" demo_env "fresh_bot demo_env" "[]"
      "env_after_bot demo_env" demo_bot "21 / 100"
      "demo_bot\<lparr>target_x := 1500, target_y := 20, cells := [demo_cell\<lparr>cell_x := 50\<rparr>],
                     last_update_time := 21 / 100\<rparr>"
      "demo_env\<lparr>rand_src := (\<lambda>n. 1 / 150), clock_src := (\<lambda>n. 21 / 100 + real (Suc n))\<rparr>"
      0 "4 * pi" "demo_bot\<lparr>cells := [update_mass demo_cell (4 * pi)]\<rparr>"]
  have s: "sum_list (map mass (cells (demo_bot\<lparr>cells := [update_mass demo_cell (4 * pi)]\<rparr>)))
      = 4 * pi"
    by (simp add: update_mass_def)
  from t i d demo_update_env update_cell_mass_demo s show ?thesis by simp
qed

text \<open>
  C7, as stated, fails for the one operation that changes a mass: \<^verbatim>\<open>update_mass\<close> is a
  method of the cell, which has no access to the bot that holds it, and the cached total
  is written only in the constructor and in \<^verbatim>\<open>recalculate_total_mass\<close>. On a bot as
  constructed, whose cell is set to the mass \<open>4 * pi\<close>, the cached total is still
  \<open>225 * pi\<close> and the sum of the masses is \<open>4 * pi\<close>.
\<close>

theorem total_mass_invariant_counterexample:
  "total_mass demo_bot = sum_list (map mass (cells demo_bot)) \<and>
   update_cell_mass demo_bot 0 (4 * pi)
     = Some (demo_bot\<lparr>cells := [update_mass demo_cell (4 * pi)]\<rparr>) \<and>
   total_mass (demo_bot\<lparr>cells := [update_mass demo_cell (4 * pi)]\<rparr>) = 225 * pi \<and>
   sum_list (map mass (cells (demo_bot\<lparr>cells := [update_mass demo_cell (4 * pi)]\<rparr>))) = 4 * pi \<and>
   total_mass (demo_bot\<lparr>cells := [update_mass demo_cell (4 * pi)]\<rparr>)
     \<noteq> sum_list (map mass (cells (demo_bot\<lparr>cells := [update_mass demo_cell (4 * pi)]\<rparr>)))"
proof -
  have d: "total_mass demo_bot = sum_list (map mass (cells demo_bot))"
    by (simp add: demo_bot_def demo_cell_def)
  have t: "total_mass (demo_bot\<lparr>cells := [update_mass demo_cell (4 * pi)]\<rparr>) = 225 * pi"
    by (simp add: demo_bot_def BOT_INITIAL_MASS_def)
  have s: "sum_list (map mass (cells (demo_bot\<lparr>cells := [update_mass demo_cell (4 * pi)]\<rparr>)))
      = 4 * pi"
    by (simp add: update_mass_def)
  have n: "total_mass (demo_bot\<lparr>cells := [update_mass demo_cell (4 * pi)]\<rparr>)
     \<noteq> sum_list (map mass (cells (demo_bot\<lparr>cells := [update_mass demo_cell (4 * pi)]\<rparr>)))"
    unfolding t s by simp
  show ?thesis
    by (rule conjI [OF d conjI [OF update_cell_mass_demo conjI [OF t conjI [OF s n]]]])
qed

text \<open>
  C8. \<^verbatim>\<open>get_center_of_mass\<close> always returns a point (it never raises, neither by a
  division by zero nor by an index out of range): the wander target for a bot without
  cells, the position of the first cell when the cached total mass is zero, and otherwise
  the sums of \<open>x * mass\<close> and of \<open>y * mass\<close> over the cells, divided by the cached total
  mass.
\<close>

theorem center_of_mass_total:
  "get_center_of_mass b =
     Some (if cells b = [] then (target_x b, target_y b)
           else if total_mass b = 0 then (cell_x (hd (cells b)), cell_y (hd (cells b)))
           else (sum_list (map (\<lambda>c. cell_x c * mass c) (cells b)) / total_mass b,
                 sum_list (map (\<lambda>c. cell_y c * mass c) (cells b)) / total_mass b))"
  by (simp add: get_center_of_mass_eq)

text \<open>
  C10. For a negative \<open>count\<close> the reset handler does what it does for \<open>count = 0\<close>: the
  range is empty, no bot is constructed (the environment is left as it was), the registry
  is empty afterwards and the empty list is returned with status 200.
\<close>

theorem reset_negative_count:
  "c < 0 \<Longrightarrow>
     reset_all_bots (Some c) bots_data e = (([], 200), [], e) \<and>
     reset_all_bots (Some c) bots_data e = reset_all_bots (Some 0) bots_data e"
  by (simp add: reset_all_bots_eq)

theorem reset_negative_count_witness:
  "(- 3 :: int) < 0 \<and>
   reset_all_bots (Some (- 3)) two_bots demo_env = (([], 200), [], demo_env) \<and>
   reset_all_bots (Some (- 3)) two_bots demo_env = reset_all_bots (Some 0) two_bots demo_env"
proof -
  have h: "(- 3 :: int) < 0" by simp
  from reset_negative_count [OF h, of two_bots demo_env] h show ?thesis by blast
qed

end
